theory Spec2Isabelle
  imports Main
begin

section \<open>JavaScript values\<close>

text \<open>
  The serializer of \<^verbatim>\<open>src/entity-serializer.ts\<close> handles values of type \<^verbatim>\<open>any\<close>.
  The model keeps the distinctions the code tests: truthiness, \<^verbatim>\<open>typeof x === "string"\<close>,
  \<^verbatim>\<open>Array.isArray\<close>, \<^verbatim>\<open>instanceof Object\<close>, \<^verbatim>\<open>instanceof ChildEntity\<close> and identity with
  the exported \<^verbatim>\<open>IgnoreProperty\<close> object. Numbers are integers plus \<^verbatim>\<open>NaN\<close>. An entity
  instance is a reference (\<open>Inst\<close>); the exported sentinel object, when it travels as a
  value, is the reference \<open>IgnorePropertyObj\<close>; a promise, which a value resolver may
  return, is \<open>Promise\<close> with the value it settles to; \<open>Builtin n\<close> is the member
  named \<open>n\<close> that every plain object inherits from \<^verbatim>\<open>Object.prototype\<close> (a built-in
  function, or \<^verbatim>\<open>Object.prototype\<close> itself for \<^verbatim>\<open>__proto__\<close>); every other non-array
  object is \<open>Obj\<close> with its own fields in insertion order.
\<close>

type_synonym entity = nat

datatype jsval =
    Undefined
  | Null
  | Bool bool
  | Num int
  | NaN
  | Str string
  | Arr "jsval list"
  | Obj "(string \<times> jsval) list"
  | IgnorePropertyObj
  | Inst entity
  | Promise jsval
  | Builtin string

fun truthy :: "jsval \<Rightarrow> bool" where
  "truthy Undefined = False"
| "truthy Null = False"
| "truthy (Bool b) = b"
| "truthy (Num n) = (n \<noteq> 0)"
| "truthy NaN = False"
| "truthy (Str s) = (s \<noteq> [])"
| "truthy (Arr xs) = True"
| "truthy (Obj fs) = True"
| "truthy IgnorePropertyObj = True"
| "truthy (Inst e) = True"
| "truthy (Promise v) = True"
| "truthy (Builtin n) = True"

text \<open>\<^verbatim>\<open>Array.isArray(x)\<close>, \<^verbatim>\<open>typeof x === "string"\<close> and \<^verbatim>\<open>x instanceof Object\<close>.\<close>

fun isArray :: "jsval \<Rightarrow> bool" where
  "isArray (Arr xs) = True"
| "isArray v = False"

fun isString :: "jsval \<Rightarrow> bool" where
  "isString (Str s) = True"
| "isString v = False"

fun instanceofObject :: "jsval \<Rightarrow> bool" where
  "instanceofObject (Arr xs) = True"
| "instanceofObject (Obj fs) = True"
| "instanceofObject IgnorePropertyObj = True"
| "instanceofObject (Inst e) = True"
| "instanceofObject (Promise v) = True"
| "instanceofObject (Builtin n) = True"
| "instanceofObject v = False"

section \<open>Metadata, settings and results\<close>

datatype error =
    DuplicateKey string
  | TypeError

text \<open>
  \<^verbatim>\<open>PropertySerializationResult\<close> references. \<open>IgnoreProperty\<close> is the one exported object
  (fields \<^verbatim>\<open>key: "ignore", value: "ignore"\<close>); \<open>Result k v\<close> is any other object with these
  two fields, so that \<open>Result ''ignore'' (Str ''ignore'')\<close> is a distinct object with the
  sentinel's contents and \<^verbatim>\<open>res !== IgnoreProperty\<close> is \<open>res \<noteq> IgnoreProperty\<close>.
  \<open>NoResult\<close> is a \<^verbatim>\<open>null\<close> or \<^verbatim>\<open>undefined\<close> in place of a result, which the code
  guards against (\<^verbatim>\<open>result && ...\<close>, \<^verbatim>\<open>pair && ...\<close>).
\<close>

datatype psr =
    NoResult
  | IgnoreProperty
  | Result string jsval

text \<open>
  The fields \<^verbatim>\<open>key\<close> and \<^verbatim>\<open>value\<close>. The code reads them only after it has found the
  result to be truthy, so what they are on \<open>NoResult\<close> is never used.
\<close>

fun key :: "psr \<Rightarrow> string" where
  "key (Result k v) = k"
| "key IgnoreProperty = ''ignore''"
| "key NoResult = []"

fun val :: "psr \<Rightarrow> jsval" where
  "val (Result k v) = v"
| "val IgnoreProperty = Str ''ignore''"
| "val NoResult = Undefined"

datatype ptype =
    ValueType string
  | EntityType nat

record property =
  name :: string
  propertyType :: ptype
  isList :: bool
  isCalculated :: bool
  isConstant :: bool
  containingType :: nat
  format :: "(string \<Rightarrow> jsval) option"

text \<open>
  A \<^verbatim>\<open>Type\<close> object: its identity, its full name, its base type (a finite chain), the name
  of its identifier property (\<^verbatim>\<open>type.identifier.name\<close>) when it declares one, and its
  properties in declared order.
\<close>

datatype type =
  Type (type_id: nat) (fullName: string) (baseType: "type option")
    (identifierName: "string option") (properties: "property list")

record settings =
  useAliases :: "bool option"
  force :: "bool option"

definition DefaultSerializationSettings :: settings where
  "DefaultSerializationSettings = \<lparr>useAliases = Some False, force = Some False\<rparr>"

text \<open>An optional flag read in a condition: \<^verbatim>\<open>undefined\<close> is falsy.\<close>

fun flag :: "bool option \<Rightarrow> bool" where
  "flag None = False"
| "flag (Some b) = b"

type_synonym init_context = nat

text \<open>
  The collaborators of section 6 of the specification, which the serializer reads through
  narrow interfaces and which are not part of the file: the type objects by reference,
  \<^verbatim>\<open>entity.meta.type\<close>, \<^verbatim>\<open>prop.value(entity)\<close>, \<^verbatim>\<open>Entity.serialize(settings)\<close>,
  \<^verbatim>\<open>x instanceof ChildEntity\<close>, a field read on an entity instance, \<^verbatim>\<open>type.meta.get(id)\<close>
  and the entity constructor \<^verbatim>\<open>new type(id, state, context)\<close>.
\<close>

record world =
  types :: "nat \<Rightarrow> type"
  meta_type :: "entity \<Rightarrow> type"
  prop_value :: "property \<Rightarrow> entity \<Rightarrow> jsval"
  entity_serialize :: "entity \<Rightarrow> settings \<Rightarrow> error + jsval"
  instanceof :: "entity \<Rightarrow> nat \<Rightarrow> bool"
  entity_field :: "entity \<Rightarrow> string \<Rightarrow> jsval"
  meta_get :: "nat \<Rightarrow> jsval \<Rightarrow> entity option"
  construct :: "nat \<Rightarrow> jsval \<Rightarrow> jsval \<Rightarrow> init_context \<Rightarrow> entity"

section \<open>Plug-ins and the serializer's registries\<close>

record converter =
  shouldConvert :: "entity \<Rightarrow> property \<Rightarrow> bool"
  conv_serialize :: "entity \<Rightarrow> jsval \<Rightarrow> property \<Rightarrow> settings \<Rightarrow> psr"
  conv_deserialize :: "entity \<Rightarrow> jsval \<Rightarrow> property \<Rightarrow> jsval"

type_synonym injector = "entity \<Rightarrow> psr list"

type_synonym resolver = "entity \<Rightarrow> property \<Rightarrow> jsval \<Rightarrow> jsval"

text \<open>A registry key of type \<^verbatim>\<open>Type | string\<close>: a type object (by identity) or a name.\<close>

datatype reg_key =
    ByType nat
  | ByName string

record serializer =
  propertyConverters :: "converter list"
  propertyInjectors :: "reg_key \<Rightarrow> injector list option"
  propertyAliases :: "reg_key \<Rightarrow> (string \<Rightarrow> string option) option"
  valueResolvers :: "resolver list"

definition new_serializer :: serializer where
  "new_serializer =
     \<lparr>propertyConverters = [], propertyInjectors = (\<lambda>k. None),
      propertyAliases = (\<lambda>k. None), valueResolvers = []\<rparr>"

definition registerPropertyConverter :: "serializer \<Rightarrow> converter \<Rightarrow> serializer" where
  "registerPropertyConverter ser c = ser\<lparr>propertyConverters := c # propertyConverters ser\<rparr>"

definition registerPropertyInjector :: "serializer \<Rightarrow> reg_key \<Rightarrow> injector \<Rightarrow> serializer" where
  "registerPropertyInjector ser k i =
     (let injectors = (case propertyInjectors ser k of None \<Rightarrow> [] | Some is \<Rightarrow> is)
      in ser\<lparr>propertyInjectors := (propertyInjectors ser)(k \<mapsto> injectors @ [i])\<rparr>)"

text \<open>
  \<^verbatim>\<open>aliases[k] = v\<close> on an alias object, a plain \<^verbatim>\<open>{}\<close> holding strings: the key
  \<^verbatim>\<open>__proto__\<close> goes to the setter inherited from \<^verbatim>\<open>Object.prototype\<close>, which ignores a
  string; every other key becomes an own member.
\<close>

definition assign_alias ::
  "(string \<Rightarrow> string option) \<Rightarrow> string \<Rightarrow> string \<Rightarrow> (string \<Rightarrow> string option)" where
  "assign_alias aliases k v = (if k = ''__proto__'' then aliases else aliases(k \<mapsto> v))"

definition registerPropertyAlias :: "serializer \<Rightarrow> reg_key \<Rightarrow> string \<Rightarrow> string \<Rightarrow> serializer" where
  "registerPropertyAlias ser k alias propertyName =
     (let aliases = (case propertyAliases ser k of None \<Rightarrow> Map.empty | Some m \<Rightarrow> m)
      in ser\<lparr>propertyAliases :=
           (propertyAliases ser)
             (k \<mapsto> assign_alias (assign_alias aliases alias propertyName) propertyName alias)\<rparr>)"

definition registerValueResolver :: "serializer \<Rightarrow> resolver \<Rightarrow> serializer" where
  "registerValueResolver ser r = ser\<lparr>valueResolvers := valueResolvers ser @ [r]\<rparr>"

section \<open>Injector and alias lookup\<close>

definition getInjectorsOrDefault :: "serializer \<Rightarrow> type \<Rightarrow> injector list" where
  "getInjectorsOrDefault ser t =
     (case propertyInjectors ser (ByType (type_id t)) of None \<Rightarrow> [] | Some is \<Rightarrow> is) @
     (case propertyInjectors ser (ByName (fullName t)) of None \<Rightarrow> [] | Some is \<Rightarrow> is)"

text \<open>The \<^verbatim>\<open>do ... while (type)\<close> loop over \<^verbatim>\<open>type.baseType\<close>.\<close>

fun getPropertyInjectors :: "serializer \<Rightarrow> type \<Rightarrow> injector list" where
  "getPropertyInjectors ser (Type i n b idn ps) =
     getInjectorsOrDefault ser (Type i n b idn ps) @
     (case b of None \<Rightarrow> [] | Some t \<Rightarrow> getPropertyInjectors ser t)"

text \<open>
  \<^verbatim>\<open>Object.assign({}, a, b)\<close> copies the entries of \<open>a\<close>, then those of \<open>b\<close>: an entry of
  \<open>b\<close> replaces an entry of \<open>a\<close> with the same key. A missing source contributes nothing.
  The result of \<open>getPropertyAliases\<close> is the own members of the merged object; the
  members it inherits from \<^verbatim>\<open>Object.prototype\<close> come in where a member is read
  (\<open>alias_or_key\<close> below).
\<close>

definition object_assign ::
  "(string \<Rightarrow> string option) option \<Rightarrow> (string \<Rightarrow> string option) option \<Rightarrow> string \<Rightarrow> string option" where
  "object_assign a b =
     (\<lambda>k. case (case b of None \<Rightarrow> None | Some m \<Rightarrow> m k) of
            Some v \<Rightarrow> Some v
          | None \<Rightarrow> (case a of None \<Rightarrow> None | Some m \<Rightarrow> m k))"

definition getPropertyAliases :: "serializer \<Rightarrow> type \<Rightarrow> string \<Rightarrow> string option" where
  "getPropertyAliases ser t =
     object_assign (propertyAliases ser (ByType (type_id t))) (propertyAliases ser (ByName (fullName t)))"

section \<open>The default converter\<close>

text \<open>
  \<^verbatim>\<open>ent.serialize(settings)\<close> and \<^verbatim>\<open>value.slice()\<close> on a value of type \<^verbatim>\<open>any\<close>: calling a
  method the value does not have raises a \<^verbatim>\<open>TypeError\<close>. Only entity instances have
  \<^verbatim>\<open>serialize\<close>; arrays and strings have \<^verbatim>\<open>slice\<close>, which without arguments copies.
\<close>

fun call_serialize :: "world \<Rightarrow> settings \<Rightarrow> jsval \<Rightarrow> error + jsval" where
  "call_serialize w s (Inst e) = entity_serialize w e s"
| "call_serialize w s v = Inl TypeError"

fun slice :: "jsval \<Rightarrow> error + jsval" where
  "slice (Arr xs) = Inr (Arr xs)"
| "slice (Str s) = Inr (Str s)"
| "slice v = Inl TypeError"

fun elems :: "jsval \<Rightarrow> jsval list" where
  "elems (Arr xs) = xs"
| "elems v = []"

text \<open>\<^verbatim>\<open>xs.map(f)\<close> where \<open>f\<close> may throw: the first exception ends the loop.\<close>

fun map_results :: "('a \<Rightarrow> error + 'b) \<Rightarrow> 'a list \<Rightarrow> error + 'b list" where
  "map_results f [] = Inr []"
| "map_results f (x # xs) =
     (case f x of
        Inl e \<Rightarrow> Inl e
      | Inr y \<Rightarrow> (case map_results f xs of Inl e \<Rightarrow> Inl e | Inr ys \<Rightarrow> Inr (y # ys)))"

definition isEntityType :: "ptype \<Rightarrow> bool" where
  "isEntityType t = (case t of EntityType c \<Rightarrow> True | ValueType n \<Rightarrow> False)"

text \<open>\<^verbatim>\<open>PropertyConverter.serialize\<close>, the method of the built-in default converter.\<close>

definition PropertyConverter_serialize ::
  "world \<Rightarrow> entity \<Rightarrow> jsval \<Rightarrow> property \<Rightarrow> settings \<Rightarrow> error + psr" where
  "PropertyConverter_serialize w context v property settings =
     (if truthy v then
        (if isEntityType (propertyType property) then
           (if isList property \<and> isArray v then
              (case map_results (call_serialize w settings) (elems v) of
                 Inl e \<Rightarrow> Inl e
               | Inr vs \<Rightarrow> Inr (Result (name property) (Arr vs)))
            else
              (case call_serialize w settings v of
                 Inl e \<Rightarrow> Inl e
               | Inr v' \<Rightarrow> Inr (Result (name property) v')))
         else if isList property then
           (case slice v of
              Inl e \<Rightarrow> Inl e
            | Inr v' \<Rightarrow> Inr (Result (name property) v'))
         else Inr (Result (name property) v))
      else Inr (Result (name property) v))"

section \<open>serializePropertyValue\<close>

text \<open>
  The \<^verbatim>\<open>for\<close> loop over the filtered converters: \<open>Some res\<close> when a converter's result is
  returned, \<open>None\<close> when the loop runs to its end.
\<close>

fun try_converters ::
  "converter list \<Rightarrow> entity \<Rightarrow> jsval \<Rightarrow> property \<Rightarrow> settings \<Rightarrow> psr option" where
  "try_converters [] entity v property settings = None"
| "try_converters (c # cs) entity v property settings =
     (let res = conv_serialize c entity v property settings
      in if \<not> flag (force settings) \<or> res \<noteq> IgnoreProperty then Some res
         else try_converters cs entity v property settings)"

text \<open>
  \<^verbatim>\<open>result.key = ...\<close> assigns the field of the result object in place. A plug-in is a
  function of its arguments that hands out a new object at each call, as the default
  converter does (\<^verbatim>\<open>const result = { key: property.name, value }\<close>), so the assignment
  is seen through the returned reference only; a plug-in that hands out one object twice
  is outside the model.
\<close>

definition set_key :: "psr \<Rightarrow> string \<Rightarrow> psr" where
  "set_key r k = (case r of Result k0 v \<Rightarrow> Result k v | r' \<Rightarrow> r')"

text \<open>
  The members a plain object inherits from \<^verbatim>\<open>Object.prototype\<close>. Read where an alias is
  expected they are truthy, so they replace the key; the key of the pair is then not a
  string, and is represented by the property key it converts to when \<^verbatim>\<open>serialize\<close> uses
  it: the source text of the built-in function (in the form V8 prints it), and
  \<^verbatim>\<open>[object Object]\<close> for \<^verbatim>\<open>__proto__\<close>, whose getter answers \<^verbatim>\<open>Object.prototype\<close>.
\<close>

definition Object_prototype_functions :: "string list" where
  "Object_prototype_functions =
     [''__defineGetter__'', ''__defineSetter__'', ''__lookupGetter__'', ''__lookupSetter__'',
      ''hasOwnProperty'', ''isPrototypeOf'', ''propertyIsEnumerable'', ''toLocaleString'',
      ''toString'', ''valueOf'']"

definition Object_prototype_members :: "string list" where
  "Object_prototype_members = ''constructor'' # ''__proto__'' # Object_prototype_functions"

definition native_function_text :: "string \<Rightarrow> string" where
  "native_function_text f = ''function '' @ f @ ''() { [native code] }''"

definition inherited_member_key :: "string \<Rightarrow> string option" where
  "inherited_member_key n =
     (if n = ''constructor'' then Some (native_function_text ''Object'')
      else if n = ''__proto__'' then Some ''[object Object]''
      else if n \<in> set Object_prototype_functions then Some (native_function_text n)
      else None)"

text \<open>
  \<^verbatim>\<open>this.getPropertyAliases(property.containingType)[property.name] || result.key\<close>: an
  own member of the merged alias object if there is one (there is never an own member
  \<^verbatim>\<open>__proto__\<close>), else an inherited member, else \<^verbatim>\<open>undefined\<close>; an empty alias is falsy.
\<close>

definition alias_or_key :: "serializer \<Rightarrow> world \<Rightarrow> property \<Rightarrow> psr \<Rightarrow> string" where
  "alias_or_key ser w property result =
     (case (if name property = ''__proto__'' then None
            else getPropertyAliases ser (types w (containingType property)) (name property)) of
        Some a \<Rightarrow> if a \<noteq> [] then a else key result
      | None \<Rightarrow>
          (case inherited_member_key (name property) of
             Some k \<Rightarrow> k
           | None \<Rightarrow> key result))"

definition serializePropertyValue ::
  "serializer \<Rightarrow> world \<Rightarrow> entity \<Rightarrow> property \<Rightarrow> jsval \<Rightarrow> settings \<Rightarrow> error + psr" where
  "serializePropertyValue ser w entity property v settings =
     (let converters = filter (\<lambda>c. shouldConvert c entity property) (propertyConverters ser)
      in case (case try_converters converters entity v property settings of
                 Some res \<Rightarrow> Inr res
               | None \<Rightarrow> PropertyConverter_serialize w entity v property settings) of
           Inl e \<Rightarrow> Inl e
         | Inr result \<Rightarrow>
             Inr (if result \<noteq> NoResult \<and> result \<noteq> IgnoreProperty \<and> flag (useAliases settings)
                  then set_key result (alias_or_key ser w property result)
                  else result))"

section \<open>serialize\<close>

definition duplicate_message :: "string \<Rightarrow> string" where
  "duplicate_message k =
     ''Property '' @ [CHR 39] @ k @ [CHR 39] @
     '' was encountered twice during serialization. Make sure injected properties do not collide with model properties.''"

text \<open>
  The result object. It is created as \<^verbatim>\<open>{}\<close>, so its prototype is \<^verbatim>\<open>Object.prototype\<close>
  (\<open>proto = None\<close>) until an assignment to \<^verbatim>\<open>__proto__\<close> replaces it (\<open>proto = Some v\<close>);
  \<open>own\<close> holds its own members in the order of their creation.
\<close>

record js_object =
  proto :: "jsval option"
  own :: "(string \<times> jsval) list"

definition empty_object :: js_object where
  "empty_object = \<lparr>proto = None, own = []\<rparr>"

text \<open>
  \<^verbatim>\<open>result.hasOwnProperty\<close> is the built-in method as long as neither the object nor its
  prototype has a member of this name: a member given by a pair is data, and calling it
  raises a \<^verbatim>\<open>TypeError\<close>, as does calling the \<^verbatim>\<open>undefined\<close> found once the prototype is
  \<^verbatim>\<open>null\<close>. An entity instance taken as prototype is read through the collaborator
  \<open>entity_field\<close>.
\<close>

fun proto_keeps_method :: "world \<Rightarrow> jsval option \<Rightarrow> bool" where
  "proto_keeps_method w None = True"
| "proto_keeps_method w (Some Null) = False"
| "proto_keeps_method w (Some (Obj fs)) = (''hasOwnProperty'' \<notin> set (map fst fs))"
| "proto_keeps_method w (Some (Inst e)) = (entity_field w e ''hasOwnProperty'' = Undefined)"
| "proto_keeps_method w (Some v) = True"

definition hasOwnProperty_callable :: "world \<Rightarrow> js_object \<Rightarrow> bool" where
  "hasOwnProperty_callable w obj =
     (''hasOwnProperty'' \<notin> set (map fst (own obj)) \<and> proto_keeps_method w (proto obj))"

text \<open>
  Whether an assignment to \<^verbatim>\<open>__proto__\<close> finds the accessor of \<^verbatim>\<open>Object.prototype\<close>:
  not below a \<^verbatim>\<open>null\<close> prototype, and not when the prototype has a member \<^verbatim>\<open>__proto__\<close>
  of its own (an object read from JSON may), which is data.
\<close>

fun reaches_proto_setter :: "jsval option \<Rightarrow> bool" where
  "reaches_proto_setter None = True"
| "reaches_proto_setter (Some Null) = False"
| "reaches_proto_setter (Some (Obj fs)) = (''__proto__'' \<notin> set (map fst fs))"
| "reaches_proto_setter (Some v) = True"

text \<open>
  \<^verbatim>\<open>result[k] = v\<close>. A member the object has is given the value; \<^verbatim>\<open>__proto__\<close> goes to
  the inherited setter, which replaces the prototype when \<open>v\<close> is an object or \<^verbatim>\<open>null\<close>
  and does nothing otherwise; any other key becomes a new own member. Prototypes are
  taken to hold writable data only: setters that the class of an entity instance may
  define are not modelled.
\<close>

definition js_assign :: "js_object \<Rightarrow> string \<Rightarrow> jsval \<Rightarrow> js_object" where
  "js_assign obj k v =
     (if k \<in> set (map fst (own obj))
      then obj\<lparr>own := map (\<lambda>(k', v'). if k' = k then (k', v) else (k', v')) (own obj)\<rparr>
      else if k = ''__proto__'' \<and> reaches_proto_setter (proto obj)
      then (if instanceofObject v \<or> v = Null then obj\<lparr>proto := Some v\<rparr> else obj)
      else obj\<lparr>own := own obj @ [(k, v)]\<rparr>)"

text \<open>
  The order in which an object lists its own keys (\<^verbatim>\<open>Object.keys\<close>, \<^verbatim>\<open>JSON.stringify\<close>,
  \<^verbatim>\<open>for ... in\<close>): the array indices, that is the canonical decimal numerals below
  \<open>2^32 - 1\<close>, in ascending order, followed by the other keys in the order of creation.
\<close>

definition digit_value :: "char \<Rightarrow> int" where
  "digit_value c = of_char c - 48"

definition is_digit :: "char \<Rightarrow> bool" where
  "is_digit c = (48 \<le> (of_char c :: nat) \<and> (of_char c :: nat) \<le> 57)"

definition index_value :: "string \<Rightarrow> int" where
  "index_value k = foldl (\<lambda>n c. 10 * n + digit_value c) 0 k"

definition is_array_index :: "string \<Rightarrow> bool" where
  "is_array_index k =
     (k \<noteq> [] \<and> list_all is_digit k \<and> (k = ''0'' \<or> hd k \<noteq> CHR ''0'') \<and>
      index_value k < 4294967295)"

definition own_keys :: "js_object \<Rightarrow> string list" where
  "own_keys obj =
     sort_key index_value (filter is_array_index (map fst (own obj))) @
     filter (\<lambda>k. \<not> is_array_index k) (map fst (own obj))"

text \<open>
  The \<^verbatim>\<open>forEach\<close> that fills the result object: for every pair that is neither missing
  nor the sentinel, the call \<^verbatim>\<open>result.hasOwnProperty(pair.key)\<close>, the \<^verbatim>\<open>throw\<close> when it
  answers true, and the assignment.
\<close>

fun add_pairs :: "world \<Rightarrow> psr list \<Rightarrow> js_object \<Rightarrow> error + js_object" where
  "add_pairs w [] result = Inr result"
| "add_pairs w (pair # ps) result =
     (if pair \<noteq> NoResult \<and> pair \<noteq> IgnoreProperty then
        (if \<not> hasOwnProperty_callable w result then Inl TypeError
         else if key pair \<in> set (map fst (own result))
         then Inl (DuplicateKey (duplicate_message (key pair)))
         else add_pairs w ps (js_assign result (key pair) (val pair)))
      else add_pairs w ps result)"

definition injected_pairs :: "serializer \<Rightarrow> world \<Rightarrow> entity \<Rightarrow> psr list" where
  "injected_pairs ser w entity =
     concat (map (\<lambda>i. i entity) (getPropertyInjectors ser (meta_type w entity)))"

definition model_pairs :: "serializer \<Rightarrow> world \<Rightarrow> entity \<Rightarrow> settings \<Rightarrow> error + psr list" where
  "model_pairs ser w entity settings =
     map_results (\<lambda>prop. serializePropertyValue ser w entity prop (prop_value w prop entity) settings)
       (filter (\<lambda>p. \<not> isCalculated p \<and> \<not> isConstant p) (properties (meta_type w entity)))"

definition serialize ::
  "serializer \<Rightarrow> world \<Rightarrow> entity \<Rightarrow> settings \<Rightarrow> error + js_object" where
  "serialize ser w entity settings =
     (case model_pairs ser w entity settings of
        Inl e \<Rightarrow> Inl e
      | Inr ps \<Rightarrow> add_pairs w (injected_pairs ser w entity @ ps) empty_object)"

section \<open>deserialize\<close>

text \<open>
  Reading the member \<open>n\<close> of a plain object with the fields \<open>fs\<close>: its own field, else
  the member inherited from \<^verbatim>\<open>Object.prototype\<close>, else \<^verbatim>\<open>undefined\<close>.
\<close>

definition object_member :: "(string \<times> jsval) list \<Rightarrow> string \<Rightarrow> jsval" where
  "object_member fs n =
     (case map_of fs n of
        Some v \<Rightarrow> v
      | None \<Rightarrow> if n \<in> set Object_prototype_members then Builtin n else Undefined)"

text \<open>
  \<^verbatim>\<open>state[name]\<close> on a value of type \<^verbatim>\<open>any\<close>: reading a member of \<^verbatim>\<open>null\<close> or
  \<^verbatim>\<open>undefined\<close> raises; an entity instance is read through the collaborator
  \<open>entity_field\<close>. The members of arrays, strings, numbers, booleans, promises and
  built-in functions are not modelled: reading one gives \<^verbatim>\<open>undefined\<close>.
\<close>

fun js_get :: "world \<Rightarrow> jsval \<Rightarrow> string \<Rightarrow> error + jsval" where
  "js_get w Undefined n = Inl TypeError"
| "js_get w Null n = Inl TypeError"
| "js_get w (Obj fs) n = Inr (object_member fs n)"
| "js_get w (Inst e) n = Inr (entity_field w e n)"
| "js_get w IgnorePropertyObj n =
     Inr (object_member [(''key'', Str ''ignore''), (''value'', Str ''ignore'')] n)"
| "js_get w v n = Inr Undefined"

fun instanceOf :: "world \<Rightarrow> jsval \<Rightarrow> nat \<Rightarrow> bool" where
  "instanceOf w (Inst e) c = instanceof w e c"
| "instanceOf w v c = False"

text \<open>The local function \<^verbatim>\<open>resolveEntity\<close> of \<^verbatim>\<open>deserialize\<close>.\<close>

definition resolveEntity :: "world \<Rightarrow> init_context \<Rightarrow> nat \<Rightarrow> jsval \<Rightarrow> error + jsval" where
  "resolveEntity w ctx c state =
     (case (case identifierName (types w c) of
              Some n \<Rightarrow> js_get w state n
            | None \<Rightarrow> Inr Null) of
        Inl e \<Rightarrow> Inl e
      | Inr ident \<Rightarrow>
          Inr (Inst (case (if truthy ident then meta_get w c ident else None) of
                       Some entity \<Rightarrow> entity
                     | None \<Rightarrow> construct w c ident state ctx)))"

text \<open>
  A list of outcomes of recursive calls, in order: the first call that does not return
  (\<open>None\<close>) or that raises decides the outcome of the whole \<^verbatim>\<open>map\<close>.
\<close>

fun collect :: "(error + 'a) option list \<Rightarrow> (error + 'a list) option" where
  "collect [] = Some (Inr [])"
| "collect (None # rs) = None"
| "collect (Some (Inl e) # rs) = Some (Inl e)"
| "collect (Some (Inr v) # rs) =
     (case collect rs of
        None \<Rightarrow> None
      | Some (Inl e) \<Rightarrow> Some (Inl e)
      | Some (Inr vs) \<Rightarrow> Some (Inr (v # vs)))"

fun str_of :: "jsval \<Rightarrow> string" where
  "str_of (Str s) = s"
| "str_of v = []"

text \<open>
  \<^verbatim>\<open>deserialize\<close> calls itself on the elements of a value list after a converter has
  rewritten the data, so a converter that keeps producing arrays makes it run forever.
  The first argument bounds the depth of the recursion; \<open>None\<close> is a call that has not
  returned within the bound. A result \<open>Inr Undefined\<close> is the \<^verbatim>\<open>undefined\<close> of a bare
  \<^verbatim>\<open>return\<close> or of the unassigned \<^verbatim>\<open>value\<close>. A string's \<^verbatim>\<open>constructor\<close> is \<^verbatim>\<open>String\<close>,
  which is the property type \<open>ValueType ''String''\<close>.
\<close>

text \<open>The converter step: \<^verbatim>\<open>find\<close> takes the first converter of the list that matches.\<close>

definition apply_converter :: "serializer \<Rightarrow> entity \<Rightarrow> jsval \<Rightarrow> property \<Rightarrow> jsval" where
  "apply_converter ser instance data property =
     (case find (\<lambda>c. shouldConvert c instance property) (propertyConverters ser) of
        Some converter \<Rightarrow> conv_deserialize converter instance data property
      | None \<Rightarrow> data)"

fun deserialize ::
  "nat \<Rightarrow> serializer \<Rightarrow> world \<Rightarrow> entity \<Rightarrow> jsval \<Rightarrow> property \<Rightarrow> init_context \<Rightarrow> bool
     \<Rightarrow> (error + jsval) option" where
  "deserialize 0 ser w instance data0 property ctx constructEntity = None"
| "deserialize (Suc n) ser w instance data0 property ctx constructEntity =
     (let data = apply_converter ser instance data0 property
      in if data = IgnorePropertyObj then Some (Inr Undefined)
         else
           (case propertyType property of
              EntityType ChildEntity \<Rightarrow>
                (if \<not> constructEntity then Some (Inr data)
                 else if isList property \<and> isArray data then
                   Some (case map_results
                                (\<lambda>s. if instanceOf w s ChildEntity then Inr s
                                     else resolveEntity w ctx ChildEntity s) (elems data) of
                           Inl e \<Rightarrow> Inl e
                         | Inr vs \<Rightarrow> Inr (Arr vs))
                 else if instanceOf w data ChildEntity then Some (Inr data)
                 else if instanceofObject data then Some (resolveEntity w ctx ChildEntity data)
                 else Some (Inr Undefined))
            | ValueType T \<Rightarrow>
                (if isList property \<and> isArray data then
                   (case collect (map (\<lambda>i. deserialize n ser w instance i property ctx True)
                                    (elems data)) of
                      None \<Rightarrow> None
                    | Some (Inl e) \<Rightarrow> Some (Inl e)
                    | Some (Inr vs) \<Rightarrow> Some (Inr (Arr vs)))
                 else if format property \<noteq> None \<and> truthy data \<and> isString data \<and> T \<noteq> ''String''
                   then Some (Inr (the (format property) (str_of data)))
                 else Some (Inr data))))"

section \<open>resolveValue\<close>

text \<open>A resolver returns a promise or nothing (\<^verbatim>\<open>undefined\<close>); its type does not keep it
  from returning any other value, which the loop tests for truthiness all the same.\<close>

fun resolve_loop :: "resolver list \<Rightarrow> entity \<Rightarrow> property \<Rightarrow> jsval \<Rightarrow> jsval" where
  "resolve_loop [] context property v = Undefined"
| "resolve_loop (resolve # rs) context property v =
     (let result = resolve context property v
      in if truthy result then result else resolve_loop rs context property v)"

definition resolveValue :: "serializer \<Rightarrow> entity \<Rightarrow> property \<Rightarrow> jsval \<Rightarrow> jsval" where
  "resolveValue ser context property v = resolve_loop (valueResolvers ser) context property v"

section \<open>Definitions used in the statements\<close>

text \<open>The alias mapping registered under one key; a key never registered has no entries.\<close>

definition registered_aliases :: "serializer \<Rightarrow> reg_key \<Rightarrow> string \<Rightarrow> string option" where
  "registered_aliases ser k = (case propertyAliases ser k of None \<Rightarrow> Map.empty | Some m \<Rightarrow> m)"

text \<open>
  The body of \<^verbatim>\<open>deserialize\<close> that follows the converter step (from the test
  \<^verbatim>\<open>data === IgnoreProperty\<close> on), as a function of the converted data.
\<close>

definition deserialize_converted ::
  "nat \<Rightarrow> serializer \<Rightarrow> world \<Rightarrow> entity \<Rightarrow> jsval \<Rightarrow> property \<Rightarrow> init_context \<Rightarrow> bool
     \<Rightarrow> (error + jsval) option" where
  "deserialize_converted n ser w instance data property ctx constructEntity =
     (if data = IgnorePropertyObj then Some (Inr Undefined)
      else
        (case propertyType property of
           EntityType ChildEntity \<Rightarrow>
             (if \<not> constructEntity then Some (Inr data)
              else if isList property \<and> isArray data then
                Some (case map_results
                             (\<lambda>s. if instanceOf w s ChildEntity then Inr s
                                  else resolveEntity w ctx ChildEntity s) (elems data) of
                        Inl e \<Rightarrow> Inl e
                      | Inr vs \<Rightarrow> Inr (Arr vs))
              else if instanceOf w data ChildEntity then Some (Inr data)
              else if instanceofObject data then Some (resolveEntity w ctx ChildEntity data)
              else Some (Inr Undefined))
         | ValueType T \<Rightarrow>
             (if isList property \<and> isArray data then
                (case collect (map (\<lambda>i. deserialize n ser w instance i property ctx True)
                                 (elems data)) of
                   None \<Rightarrow> None
                 | Some (Inl e) \<Rightarrow> Some (Inl e)
                 | Some (Inr vs) \<Rightarrow> Some (Inr (Arr vs)))
              else if format property \<noteq> None \<and> truthy data \<and> isString data \<and> T \<noteq> ''String''
                then Some (Inr (the (format property) (str_of data)))
              else Some (Inr data))))"

text \<open>A plain object, as opposed to an array, an entity instance or a promise.\<close>

fun isPlainObject :: "jsval \<Rightarrow> bool" where
  "isPlainObject (Obj fs) = True"
| "isPlainObject v = False"

text \<open>
  The selection of section 4.1 of the specification, in its words: among the candidates
  (the converters whose \<^verbatim>\<open>shouldConvert\<close> holds, most recently registered first), the
  result of the first one is accepted, unless \<^verbatim>\<open>force\<close> is set, in which case the result
  of the first candidate that does not answer with the ignore sentinel is accepted;
  \<open>None\<close> when no candidate is accepted.
\<close>

definition select_converter_result ::
  "converter list \<Rightarrow> entity \<Rightarrow> jsval \<Rightarrow> property \<Rightarrow> settings \<Rightarrow> psr option" where
  "select_converter_result candidates e v p s =
     (if flag (force s)
      then map_option (\<lambda>c. conv_serialize c e v p s)
             (find (\<lambda>c. conv_serialize c e v p s \<noteq> IgnoreProperty) candidates)
      else (case candidates of [] \<Rightarrow> None | c # cs \<Rightarrow> Some (conv_serialize c e v p s)))"

text \<open>
  The pairs that \<^verbatim>\<open>serialize\<close> does not skip, the entries they contribute, and the first
  key, in order, that repeats an earlier one (after the keys \<open>seen\<close>).
\<close>

definition kept :: "psr list \<Rightarrow> psr list" where
  "kept ps = filter (\<lambda>r. r \<noteq> NoResult \<and> r \<noteq> IgnoreProperty) ps"

definition entries :: "psr list \<Rightarrow> (string \<times> jsval) list" where
  "entries ps = map (\<lambda>r. (key r, val r)) ps"

fun first_repeated :: "string list \<Rightarrow> string list \<Rightarrow> string option" where
  "first_repeated seen [] = None"
| "first_repeated seen (k # ks) =
     (if k \<in> set seen then Some k else first_repeated (seen @ [k]) ks)"

text \<open>
  Keys that the result object treats like any other: not \<^verbatim>\<open>__proto__\<close>, which the
  inherited setter takes, and not \<^verbatim>\<open>hasOwnProperty\<close>, which hides the method that
  \<^verbatim>\<open>serialize\<close> calls.
\<close>

definition ordinary_keys :: "string list \<Rightarrow> bool" where
  "ordinary_keys ks = (''__proto__'' \<notin> set ks \<and> ''hasOwnProperty'' \<notin> set ks)"

text \<open>A type followed by its ancestors, most derived first.\<close>

fun inheritance_chain :: "type \<Rightarrow> type list" where
  "inheritance_chain (Type i n b idn ps) =
     Type i n b idn ps # (case b of None \<Rightarrow> [] | Some t \<Rightarrow> inheritance_chain t)"

definition registered_injectors :: "serializer \<Rightarrow> reg_key \<Rightarrow> injector list" where
  "registered_injectors ser k = (case propertyInjectors ser k of None \<Rightarrow> [] | Some is \<Rightarrow> is)"

text \<open>
  The nesting depth of arrays; the values of a non-entity property that \<^verbatim>\<open>deserialize\<close>
  returns as they are (no ignore sentinel and no non-empty string that the property's
  format would convert, in a list property elementwise); and an entity value whose
  serialized state is a plain object carrying a truthy identifier under which the lookup
  of the type \<open>c\<close> finds the same entity.
\<close>

fun depth :: "jsval \<Rightarrow> nat" where
  "depth (Arr xs) = Suc (foldr max (map depth xs) 0)"
| "depth v = 0"

fun plain :: "property \<Rightarrow> jsval \<Rightarrow> bool" where
  "plain p (Arr xs) = (\<not> isList p \<or> list_all (plain p) xs)"
| "plain p (Str s) = (s = [] \<or> format p = None \<or> propertyType p = ValueType ''String'')"
| "plain p IgnorePropertyObj = False"
| "plain p v = True"

definition pooled :: "world \<Rightarrow> settings \<Rightarrow> nat \<Rightarrow> jsval \<Rightarrow> bool" where
  "pooled w s c v =
     (case v of
        Inst b \<Rightarrow>
          (case entity_serialize w b s of
             Inr (Obj fs) \<Rightarrow>
               (case identifierName (types w c) of
                  Some idn \<Rightarrow>
                    truthy (object_member fs idn) \<and>
                    meta_get w c (object_member fs idn) = Some b
                | None \<Rightarrow> False)
           | _ \<Rightarrow> False)
      | _ \<Rightarrow> False)"

text \<open>
  Resolve-or-construct in the words of section 4.5 of the specification, for data that
  is a plain object with the fields \<open>fs\<close>: read the identifier field, if the type declares
  one; if an identifier is present, look up an existing instance and reuse it if found;
  otherwise construct a new instance from the identifier, the data and the context.
\<close>

definition resolve_or_construct ::
  "world \<Rightarrow> init_context \<Rightarrow> nat \<Rightarrow> (string \<times> jsval) list \<Rightarrow> jsval" where
  "resolve_or_construct w ctx c fs =
     (let ident = (case identifierName (types w c) of
                     None \<Rightarrow> Null
                   | Some idn \<Rightarrow> object_member fs idn)
      in case (if truthy ident then meta_get w c ident else None) of
           Some b \<Rightarrow> Inst b
         | None \<Rightarrow> Inst (construct w c ident (Obj fs) ctx))"

text \<open>
  The fields of the plain object that an entity instance serializes to; \<open>None\<close> for a
  value that is not an entity instance, and when \<^verbatim>\<open>Entity.serialize\<close> raises or answers
  with something else than a plain object.
\<close>

fun serialized_fields :: "world \<Rightarrow> settings \<Rightarrow> jsval \<Rightarrow> (string \<times> jsval) list option" where
  "serialized_fields w s (Inst b) =
     (case entity_serialize w b s of Inr (Obj fs) \<Rightarrow> Some fs | _ \<Rightarrow> None)"
| "serialized_fields w s v = None"

text \<open>
  The key under which a property is serialized when no converter and no alias is
  registered: its name, or with \<^verbatim>\<open>useAliases\<close> the member that a plain object inherits
  under this name, if there is one.
\<close>

definition serialized_key :: "settings \<Rightarrow> property \<Rightarrow> string" where
  "serialized_key s p =
     (if flag (useAliases s)
      then (case inherited_member_key (name p) of Some k \<Rightarrow> k | None \<Rightarrow> name p)
      else name p)"

section \<open>Example data\<close>

definition Person :: type where
  "Person = Type 1 ''Person'' None None []"

definition alias_example :: serializer where
  "alias_example =
     registerPropertyAlias (registerPropertyAlias new_serializer (ByType 1) ''a'' ''p'')
       (ByName ''Person'') ''b'' ''p''"

definition some_property :: property where
  "some_property =
     \<lparr>name = ''p'', propertyType = ValueType ''Number'', isList = False, isCalculated = False,
      isConstant = False, containingType = 1, format = None\<rparr>"

definition zero_then_promise :: serializer where
  "zero_then_promise =
     registerValueResolver (registerValueResolver new_serializer (\<lambda>e p v. Num 0))
       (\<lambda>e p v. Promise (Str ''late''))"

definition reports_property :: property where
  "reports_property =
     \<lparr>name = ''reports'', propertyType = EntityType 1, isList = True, isCalculated = False,
      isConstant = False, containingType = 1, format = None\<rparr>"

text \<open>A world in which serializing any entity raises.\<close>

definition failing_world :: world where
  "failing_world =
     \<lparr>types = (\<lambda>i. Person), meta_type = (\<lambda>e. Person), prop_value = (\<lambda>p e. Null),
      entity_serialize = (\<lambda>e s. Inl TypeError), instanceof = (\<lambda>e c. False),
      entity_field = (\<lambda>e n. Undefined), meta_get = (\<lambda>c i. None),
      construct = (\<lambda>c i st ctx. 7)\<rparr>"

definition manager_property :: property where
  "manager_property =
     \<lparr>name = ''manager'', propertyType = EntityType 1, isList = False, isCalculated = False,
      isConstant = False, containingType = 1, format = None\<rparr>"

text \<open>Two converters: one suppresses every property, one renames the property \<open>p\<close>.\<close>

definition ignoring_converter :: converter where
  "ignoring_converter =
     \<lparr>shouldConvert = (\<lambda>e p. True), conv_serialize = (\<lambda>e v p s. IgnoreProperty),
      conv_deserialize = (\<lambda>e v p. IgnorePropertyObj)\<rparr>"

definition renaming_converter :: converter where
  "renaming_converter =
     \<lparr>shouldConvert = (\<lambda>e p. name p = ''p''), conv_serialize = (\<lambda>e v p s. Result ''renamed'' v),
      conv_deserialize = (\<lambda>e v p. Arr [v])\<rparr>"

text \<open>
  A type \<open>Employee\<close> derived from \<open>Person\<close>, with a scalar property, an entity property
  and a calculated property, and a world whose entities are all employees with \<open>p = 5\<close>
  and no manager.
\<close>

definition computed_property :: property where
  "computed_property =
     \<lparr>name = ''computed'', propertyType = ValueType ''Number'', isList = False,
      isCalculated = True, isConstant = False, containingType = 2, format = None\<rparr>"

definition Employee :: type where
  "Employee =
     Type 2 ''Employee'' (Some Person) None [some_property, computed_property, manager_property]"

definition example_world :: world where
  "example_world =
     \<lparr>types = (\<lambda>i. if i = 2 then Employee else Person), meta_type = (\<lambda>e. Employee),
      prop_value = (\<lambda>p e. if name p = ''p'' then Num 5 else Null),
      entity_serialize = (\<lambda>e s. Inl TypeError), instanceof = (\<lambda>e c. False),
      entity_field = (\<lambda>e n. Undefined), meta_get = (\<lambda>c i. None),
      construct = (\<lambda>c i st ctx. 7)\<rparr>"

text \<open>An injector for \<open>Employee\<close> whose key collides with the property \<open>p\<close>.\<close>

definition colliding_serializer :: serializer where
  "colliding_serializer =
     registerPropertyInjector new_serializer (ByType 2) (\<lambda>e. [Result ''p'' (Str ''injected'')])"

text \<open>
  A converter whose result is a fresh object with the contents of the sentinel, and a
  serializer with this converter and an alias \<open>ext\<close> for the property \<open>p\<close> of \<open>Employee\<close>.
\<close>

definition lookalike_converter :: converter where
  "lookalike_converter =
     \<lparr>shouldConvert = (\<lambda>e p. True),
      conv_serialize = (\<lambda>e v p s. Result ''ignore'' (Str ''ignore'')),
      conv_deserialize = (\<lambda>e v p. v)\<rparr>"

definition lookalike_serializer :: serializer where
  "lookalike_serializer =
     registerPropertyAlias (registerPropertyConverter new_serializer lookalike_converter)
       (ByType 1) ''ext'' ''p''"

text \<open>
  A type \<open>Person\<close> with an identifier, a name, a manager and a list of reports, and a
  world with three persons: Ann (entity 0, identifier 1) has the report Bob; Bob (entity
  1, identifier 2) has neither manager nor reports; Cal (entity 2, identifier 3) has the
  manager Bob. \<^verbatim>\<open>Entity.serialize\<close> is given for Bob, the only nested entity. The
  constructor makes the entity 100 + i for a numeric identifier i and the entity 9
  otherwise.
\<close>

definition id_property :: property where
  "id_property =
     \<lparr>name = ''Id'', propertyType = ValueType ''Number'', isList = False, isCalculated = False,
      isConstant = False, containingType = 1, format = None\<rparr>"

definition name_property :: property where
  "name_property =
     \<lparr>name = ''name'', propertyType = ValueType ''String'', isList = False, isCalculated = False,
      isConstant = False, containingType = 1, format = Some (\<lambda>s. Str (rev s))\<rparr>"

definition PersonWithId :: type where
  "PersonWithId =
     Type 1 ''Person'' None (Some ''Id'')
       [id_property, name_property, manager_property, reports_property]"

definition bob_state :: "(string \<times> jsval) list" where
  "bob_state = [(''Id'', Num 2), (''name'', Str ''Bob''), (''manager'', Null), (''reports'', Arr [])]"

definition pool_world :: world where
  "pool_world =
     \<lparr>types = (\<lambda>i. PersonWithId), meta_type = (\<lambda>e. PersonWithId),
      prop_value = (\<lambda>p e.
        if name p = ''Id'' then Num (int e + 1)
        else if name p = ''name''
          then Str (if e = 0 then ''Ann'' else if e = 1 then ''Bob'' else ''Cal'')
        else if name p = ''manager'' then (if e = 2 then Inst 1 else Null)
        else if name p = ''reports'' then (if e = 0 then Arr [Inst 1] else Arr [])
        else Undefined),
      entity_serialize = (\<lambda>b s. if b = 1 then Inr (Obj bob_state) else Inl TypeError),
      instanceof = (\<lambda>e c. c = 1),
      entity_field = (\<lambda>e n. Undefined),
      meta_get = (\<lambda>c i. if i = Num 1 then Some 0 else if i = Num 2 then Some 1
                         else if i = Num 3 then Some 2 else None),
      construct = (\<lambda>c i st ctx. case i of Num n \<Rightarrow> 100 + nat n | _ \<Rightarrow> 9)\<rparr>"

text \<open>The same world with a type that declares no identifier.\<close>

definition anonymous_world :: world where
  "anonymous_world = pool_world\<lparr>types := (\<lambda>i. Person)\<rparr>"

text \<open>
  Injectors for \<open>Employee\<close> whose pairs are keyed \<^verbatim>\<open>__proto__\<close>, with objects and with
  numbers as values, and one whose pair is keyed \<^verbatim>\<open>hasOwnProperty\<close>.
\<close>

definition proto_serializer :: serializer where
  "proto_serializer =
     registerPropertyInjector new_serializer (ByType 2)
       (\<lambda>e. [Result ''__proto__'' (Obj [(''a'', Num 1)]), Result ''__proto__'' (Obj [(''a'', Num 2)])])"

definition proto_number_serializer :: serializer where
  "proto_number_serializer =
     registerPropertyInjector new_serializer (ByType 2)
       (\<lambda>e. [Result ''__proto__'' (Num 1), Result ''__proto__'' (Num 2)])"

definition shadowing_serializer :: serializer where
  "shadowing_serializer =
     registerPropertyInjector new_serializer (ByType 2) (\<lambda>e. [Result ''hasOwnProperty'' (Num 1)])"

text \<open>
  A converter that serializes the property \<open>p\<close> under the key \<open>7\<close>, and a serializer
  with this converter and an injector of the key \<open>tag\<close> for \<open>Employee\<close>.
\<close>

definition numbering_converter :: converter where
  "numbering_converter =
     \<lparr>shouldConvert = (\<lambda>e p. name p = ''p''), conv_serialize = (\<lambda>e v p s. Result ''7'' v),
      conv_deserialize = (\<lambda>e v p. v)\<rparr>"

definition numbering_serializer :: serializer where
  "numbering_serializer =
     registerPropertyConverter
       (registerPropertyInjector new_serializer (ByName ''Employee'') (\<lambda>e. [Result ''tag'' (Num 1)]))
       numbering_converter"

text \<open>The world of the three persons with a lookup that finds nothing.\<close>

definition missing_world :: world where
  "missing_world = pool_world\<lparr>meta_get := (\<lambda>c i. None)\<rparr>"

section \<open>Alias lookup\<close>

text \<open>
  C6, as the code has it: \<^verbatim>\<open>getPropertyAliases(T)\<close> merges the mapping registered under
  the type object with the one registered under the full name of \<open>T\<close>. A key bound by
  one of them only is taken from it; a key bound by both takes the full-name entry, which
  overrides the type-object entry (the order of \<^verbatim>\<open>Object.assign\<close>).
\<close>

theorem getPropertyAliases_fullName_wins:
  "getPropertyAliases ser t k =
     (case registered_aliases ser (ByName (fullName t)) k of
        Some b \<Rightarrow> Some b
      | None \<Rightarrow> registered_aliases ser (ByType (type_id t)) k) \<and>
   dom (getPropertyAliases ser t) =
     dom (registered_aliases ser (ByType (type_id t))) \<union>
     dom (registered_aliases ser (ByName (fullName t)))"
proof -
  have merge: "getPropertyAliases ser t =
      registered_aliases ser (ByType (type_id t)) ++ registered_aliases ser (ByName (fullName t))"
    by (rule ext)
      (simp add: getPropertyAliases_def object_assign_def registered_aliases_def map_add_def
        split: option.splits)
  show ?thesis
    unfolding merge by (auto simp: map_add_def split: option.splits)
qed

text \<open>
  C6 as stated fails: with \<open>p\<close> aliased to \<open>a\<close> under the type object and to \<open>b\<close> under
  the full name, the merged mapping binds \<open>p\<close> to \<open>b\<close>, not to \<open>a\<close>.
\<close>

theorem getPropertyAliases_override_counterexample:
  "registered_aliases alias_example (ByType (type_id Person)) ''p'' = Some ''a'' \<and>
   registered_aliases alias_example (ByName (fullName Person)) ''p'' = Some ''b'' \<and>
   getPropertyAliases alias_example Person ''p'' = Some ''b'' \<and>
   getPropertyAliases alias_example Person ''p'' \<noteq> Some ''a''"
  by (simp add: getPropertyAliases_def object_assign_def registered_aliases_def alias_example_def
      Person_def registerPropertyAlias_def assign_alias_def new_serializer_def)

section \<open>The resolver chain\<close>

lemma valueResolvers_registered:
  "valueResolvers (foldl registerValueResolver ser rs) = valueResolvers ser @ rs"
  by (induction rs arbitrary: ser) (simp_all add: registerValueResolver_def)

lemma resolve_loop_find:
  "resolve_loop rs c p v =
     (case find (\<lambda>r. truthy (r c p v)) rs of None \<Rightarrow> Undefined | Some r \<Rightarrow> r c p v)"
  by (induction rs) (simp_all add: Let_def)

text \<open>
  C7, as the code has it: after the resolvers \<open>rs\<close> have been registered in this order,
  \<^verbatim>\<open>resolveValue\<close> returns the result of the first resolver, in registration order, whose
  result is truthy, whatever the resolvers after it are; when no result is truthy it
  returns \<^verbatim>\<open>undefined\<close>. A result that is \<^verbatim>\<open>0\<close>, the empty string, \<^verbatim>\<open>false\<close>, \<^verbatim>\<open>null\<close>,
  \<^verbatim>\<open>NaN\<close> or \<^verbatim>\<open>undefined\<close> counts as no result.
\<close>

theorem resolveValue_first_truthy:
  "resolveValue (foldl registerValueResolver ser rs) c p v =
     (case find (\<lambda>r. truthy (r c p v)) (valueResolvers ser @ rs) of
        None \<Rightarrow> Undefined
      | Some r \<Rightarrow> r c p v)"
  by (simp add: resolveValue_def valueResolvers_registered resolve_loop_find)

text \<open>
  C7 as stated fails: a resolver that returns \<open>0\<close> is passed over in favour of a later
  resolver, and alone it makes \<^verbatim>\<open>resolveValue\<close> yield nothing.
\<close>

theorem resolveValue_zero_counterexample:
  "resolveValue zero_then_promise 0 some_property Null = Promise (Str ''late'') \<and>
   resolveValue (registerValueResolver new_serializer (\<lambda>e p v. Num 0)) 0 some_property Null
     = Undefined"
  by (simp add: resolveValue_def zero_then_promise_def registerValueResolver_def new_serializer_def)

section \<open>The default converter\<close>

lemma falsy_values:
  "(\<not> truthy v) = (v \<in> {Undefined, Null, Bool False, Num 0, NaN, Str []})"
  by (cases v) auto

text \<open>
  C10: when the value is falsy (\<^verbatim>\<open>undefined\<close>, \<^verbatim>\<open>null\<close>, \<^verbatim>\<open>false\<close>, \<^verbatim>\<open>0\<close>, \<^verbatim>\<open>NaN\<close> or the
  empty string), the default converter returns it unchanged under the property's declared
  name, whatever the property's type and list flag: the result does not depend on
  \<^verbatim>\<open>Entity.serialize\<close> and no copy is made.
\<close>

theorem default_converter_falsy_unchanged:
  "\<not> truthy v \<Longrightarrow> PropertyConverter_serialize w e v p s = Inr (Result (name p) v)"
  by (simp add: PropertyConverter_serialize_def)

theorem default_converter_falsy_unchanged_witness:
  "\<not> truthy Null \<and>
   PropertyConverter_serialize failing_world 0 Null reports_property DefaultSerializationSettings
     = Inr (Result ''reports'' Null)"
  using default_converter_falsy_unchanged
    [of Null failing_world 0 reports_property DefaultSerializationSettings]
  by (simp add: reports_property_def)

section \<open>Deserialization: the converter step\<close>

lemma deserialize_Suc:
  "deserialize (Suc n) ser w inst data p ctx ce =
     deserialize_converted n ser w inst (apply_converter ser inst data p) p ctx ce"
  by (simp add: deserialize_converted_def Let_def)

lemma propertyConverters_registered:
  "propertyConverters (foldl registerPropertyConverter ser cs) = rev cs @ propertyConverters ser"
  by (induction cs arbitrary: ser) (simp_all add: registerPropertyConverter_def)

text \<open>
  C3: after the converters \<open>cs\<close> have been registered in this order, \<^verbatim>\<open>deserialize\<close>
  applies only the first converter, most recently registered first, whose
  \<^verbatim>\<open>shouldConvert\<close> holds. When its result is the ignore sentinel the call returns no
  value, whatever the other converters would do; otherwise its result, and the raw data
  when no converter matches, goes unchanged through the rest of the function.
\<close>

theorem deserialize_first_converter_only:
  "deserialize (Suc n) (foldl registerPropertyConverter ser cs) w inst data p ctx ce =
     (case find (\<lambda>c. shouldConvert c inst p) (rev cs @ propertyConverters ser) of
        None \<Rightarrow>
          deserialize_converted n (foldl registerPropertyConverter ser cs) w inst data p ctx ce
      | Some c \<Rightarrow>
          if conv_deserialize c inst data p = IgnorePropertyObj then Some (Inr Undefined)
          else deserialize_converted n (foldl registerPropertyConverter ser cs) w inst
                 (conv_deserialize c inst data p) p ctx ce)"
proof -
  have sentinel: "deserialize_converted n s w inst IgnorePropertyObj p ctx ce = Some (Inr Undefined)"
    for s
    by (simp add: deserialize_converted_def)
  show ?thesis
    by (simp add: deserialize_Suc apply_converter_def propertyConverters_registered sentinel
        del: deserialize.simps split: option.splits)
qed

text \<open>
  With the suppressing converter registered last it alone is applied and no value is
  produced, although the renaming converter matches too; registered first, it is not
  consulted; with no converter the number comes back unchanged.
\<close>

theorem deserialize_first_converter_only_witness:
  "deserialize (Suc 0) (foldl registerPropertyConverter new_serializer
       [renaming_converter, ignoring_converter]) failing_world 0 (Num 5) some_property 0 True
     = Some (Inr Undefined) \<and>
   deserialize (Suc 0) (foldl registerPropertyConverter new_serializer
       [ignoring_converter, renaming_converter]) failing_world 0 (Num 5) some_property 0 True
     = Some (Inr (Arr [Num 5])) \<and>
   deserialize (Suc 0) (foldl registerPropertyConverter new_serializer [])
       failing_world 0 (Num 5) some_property 0 True
     = Some (Inr (Num 5))"
  using deserialize_first_converter_only
      [of 0 new_serializer "[renaming_converter, ignoring_converter]" failing_world 0 "Num 5"
        some_property 0 True]
    deserialize_first_converter_only
      [of 0 new_serializer "[ignoring_converter, renaming_converter]" failing_world 0 "Num 5"
        some_property 0 True]
    deserialize_first_converter_only
      [of 0 new_serializer "[]" failing_world 0 "Num 5" some_property 0 True]
  by (simp add: new_serializer_def ignoring_converter_def renaming_converter_def
      some_property_def deserialize_converted_def del: deserialize.simps)

section \<open>Deserialization: data that is not an object\<close>

lemma not_object_cases:
  "\<not> instanceofObject d \<Longrightarrow> d \<noteq> IgnorePropertyObj \<and> \<not> isArray d \<and> \<not> instanceOf w d c"
  by (cases d) simp_all

text \<open>
  C8, as the code has it: for an entity-typed property with \<^verbatim>\<open>constructEntity\<close> true
  (single-valued or not), when the converted data is not an object in the sense of
  \<^verbatim>\<open>instanceof Object\<close> (it is \<^verbatim>\<open>undefined\<close>, \<^verbatim>\<open>null\<close>, a boolean, a number or a string),
  \<^verbatim>\<open>deserialize\<close> returns, raises nothing and produces no value.
\<close>

theorem deserialize_non_object_skipped:
  assumes "propertyType p = EntityType c"
    and "\<not> instanceofObject (apply_converter ser inst data p)"
  shows "deserialize (Suc n) ser w inst data p ctx True = Some (Inr Undefined)"
  using assms not_object_cases [of "apply_converter ser inst data p" w c]
  by (simp add: Let_def)

theorem deserialize_non_object_skipped_witness:
  "propertyType manager_property = EntityType 1 \<and>
   \<not> instanceofObject (apply_converter new_serializer 0 (Num 5) manager_property) \<and>
   deserialize (Suc 0) new_serializer failing_world 0 (Num 5) manager_property 0 True
     = Some (Inr Undefined)"
proof -
  have t: "propertyType manager_property = EntityType 1"
    by (simp add: manager_property_def)
  have d: "\<not> instanceofObject (apply_converter new_serializer 0 (Num 5) manager_property)"
    by (simp add: apply_converter_def new_serializer_def)
  show ?thesis
    using t d deserialize_non_object_skipped [OF t d, of 0 failing_world 0] by simp
qed

text \<open>
  C8 as stated fails: an empty array given for a single-valued entity property is neither
  an instance of the target type nor a plain object, yet it passes \<^verbatim>\<open>instanceof Object\<close>
  and an entity is constructed from it.
\<close>

theorem deserialize_array_constructs_counterexample:
  "propertyType manager_property = EntityType 1 \<and> \<not> isList manager_property \<and>
   \<not> instanceOf failing_world (apply_converter new_serializer 0 (Arr []) manager_property) 1 \<and>
   \<not> isPlainObject (apply_converter new_serializer 0 (Arr []) manager_property) \<and>
   deserialize (Suc 0) new_serializer failing_world 0 (Arr []) manager_property 0 True
     = Some (Inr (Inst 7))"
  by (simp add: manager_property_def apply_converter_def new_serializer_def failing_world_def
      resolveEntity_def Person_def)

section \<open>Serialization: the choice of the converter\<close>

lemma try_converters_select:
  "try_converters cs e v p s = select_converter_result cs e v p s"
  by (induction cs) (auto simp: select_converter_result_def Let_def)

lemma propertyAliases_registered:
  "propertyAliases (foldl registerPropertyConverter ser cs) = propertyAliases ser"
  by (induction cs arbitrary: ser) (simp_all add: registerPropertyConverter_def)

text \<open>
  C2: after the converters \<open>cs\<close> have been registered in this order,
  \<^verbatim>\<open>serializePropertyValue\<close> filters them by \<^verbatim>\<open>shouldConvert\<close>, goes through them most
  recently registered first and returns the result object of the first one, except that
  with \<^verbatim>\<open>force\<close> set a candidate answering with the ignore sentinel is passed over; it
  falls back to the default converter when no candidate is left. Without \<^verbatim>\<open>force\<close> the
  first result is returned even when it is the sentinel. The object returned is the one
  selected; its key is reassigned to the alias when \<^verbatim>\<open>useAliases\<close> is set and the object
  is neither \<^verbatim>\<open>null\<close> nor the sentinel.
\<close>

theorem serializePropertyValue_selection:
  "serializePropertyValue (foldl registerPropertyConverter ser cs) w e p v s =
     (case (case select_converter_result
                   (filter (\<lambda>c. shouldConvert c e p) (rev cs @ propertyConverters ser)) e v p s of
              Some r \<Rightarrow> Inr r
            | None \<Rightarrow> PropertyConverter_serialize w e v p s) of
        Inl err \<Rightarrow> Inl err
      | Inr r \<Rightarrow>
          Inr (if flag (useAliases s) \<and> r \<noteq> NoResult \<and> r \<noteq> IgnoreProperty
               then set_key r (alias_or_key ser w p r) else r))"
  by (auto simp: serializePropertyValue_def try_converters_select propertyConverters_registered
      alias_or_key_def getPropertyAliases_def propertyAliases_registered Let_def
      split: sum.splits option.splits)

text \<open>
  The suppressing converter is registered after the renaming one. Without \<^verbatim>\<open>force\<close> its
  sentinel is returned; with \<^verbatim>\<open>force\<close> the renaming converter's result is; and with
  \<^verbatim>\<open>force\<close> and the suppressing converter alone the default converter answers.
\<close>

theorem serializePropertyValue_selection_witness:
  "serializePropertyValue
     (foldl registerPropertyConverter new_serializer [renaming_converter, ignoring_converter])
     failing_world 0 some_property (Num 5) \<lparr>useAliases = None, force = None\<rparr>
     = Inr IgnoreProperty \<and>
   serializePropertyValue
     (foldl registerPropertyConverter new_serializer [renaming_converter, ignoring_converter])
     failing_world 0 some_property (Num 5) \<lparr>useAliases = None, force = Some True\<rparr>
     = Inr (Result ''renamed'' (Num 5)) \<and>
   serializePropertyValue
     (foldl registerPropertyConverter new_serializer [ignoring_converter])
     failing_world 0 some_property (Num 5) \<lparr>useAliases = None, force = Some True\<rparr>
     = Inr (Result ''p'' (Num 5))"
  using serializePropertyValue_selection
      [of new_serializer "[renaming_converter, ignoring_converter]" failing_world 0 some_property
        "Num 5" "\<lparr>useAliases = None, force = None\<rparr>"]
    serializePropertyValue_selection
      [of new_serializer "[renaming_converter, ignoring_converter]" failing_world 0 some_property
        "Num 5" "\<lparr>useAliases = None, force = Some True\<rparr>"]
    serializePropertyValue_selection
      [of new_serializer "[ignoring_converter]" failing_world 0 some_property
        "Num 5" "\<lparr>useAliases = None, force = Some True\<rparr>"]
  by (simp add: new_serializer_def ignoring_converter_def renaming_converter_def
      some_property_def select_converter_result_def PropertyConverter_serialize_def
      isEntityType_def)

section \<open>The result object\<close>

lemma js_assign_new_key:
  "k \<notin> set (map fst (own r)) \<Longrightarrow> k \<noteq> ''__proto__'' \<Longrightarrow>
   js_assign r k v = r\<lparr>own := own r @ [(k, v)]\<rparr>"
  by (simp add: js_assign_def)

lemma js_assign_grows:
  "k \<notin> set (map fst (own r)) \<Longrightarrow> set (own r) \<subseteq> set (own (js_assign r k v))"
  by (auto simp: js_assign_def)

lemma js_assign_keys:
  "k \<notin> set (map fst (own r)) \<Longrightarrow>
   map fst (own (js_assign r k v)) = map fst (own r) \<or>
   map fst (own (js_assign r k v)) = map fst (own r) @ [k]"
  by (auto simp: js_assign_def)

lemma add_pairs_errors:
  "add_pairs w ps r = Inl err \<Longrightarrow>
   err = TypeError \<or> (\<exists>k. k \<in> set (map key (kept ps)) \<and> err = DuplicateKey (duplicate_message k))"
proof (induction ps arbitrary: r)
  case Nil
  then show ?case by simp
next
  case (Cons a ps)
  show ?case
  proof (cases "a \<noteq> NoResult \<and> a \<noteq> IgnoreProperty")
    case True
    then have k: "kept (a # ps) = a # kept ps" by (simp add: kept_def)
    show ?thesis
      using Cons.prems True Cons.IH [of "js_assign r (key a) (val a)"] unfolding k
      by (auto split: if_splits)
  next
    case False
    then have k: "kept (a # ps) = kept ps" by (auto simp: kept_def)
    have "add_pairs w (a # ps) r = add_pairs w ps r" using False by auto
    then show ?thesis using Cons.prems Cons.IH [of r] unfolding k by simp
  qed
qed

lemma add_pairs_grows:
  "add_pairs w ps r = Inr out \<Longrightarrow> set (own r) \<subseteq> set (own out)"
proof (induction ps arbitrary: r)
  case Nil
  then show ?case by simp
next
  case (Cons a ps)
  show ?case
  proof (cases "a \<noteq> NoResult \<and> a \<noteq> IgnoreProperty")
    case True
    with Cons.prems have new: "key a \<notin> set (map fst (own r))"
      and rest: "add_pairs w ps (js_assign r (key a) (val a)) = Inr out"
      by (auto split: if_splits)
    from Cons.IH [OF rest] js_assign_grows [OF new, of "val a"] show ?thesis by blast
  next
    case False
    then have "add_pairs w (a # ps) r = add_pairs w ps r" by auto
    then show ?thesis using Cons.prems Cons.IH [of r] by simp
  qed
qed

lemma add_pairs_member:
  "add_pairs w ps r = Inr out \<Longrightarrow> pair \<in> set (kept ps) \<Longrightarrow> key pair \<noteq> ''__proto__'' \<Longrightarrow>
   (key pair, val pair) \<in> set (own out)"
proof (induction ps arbitrary: r)
  case Nil
  then show ?case by (simp add: kept_def)
next
  case (Cons a ps)
  show ?case
  proof (cases "a \<noteq> NoResult \<and> a \<noteq> IgnoreProperty")
    case True
    then have k: "kept (a # ps) = a # kept ps" by (simp add: kept_def)
    from True Cons.prems(1) have new: "key a \<notin> set (map fst (own r))"
      and rest: "add_pairs w ps (js_assign r (key a) (val a)) = Inr out"
      by (auto split: if_splits)
    show ?thesis
    proof (cases "pair = a")
      case True
      then have "(key pair, val pair) \<in> set (own (js_assign r (key a) (val a)))"
        using new Cons.prems(3) by (simp add: js_assign_new_key)
      then show ?thesis using add_pairs_grows [OF rest] by blast
    next
      case False
      then have "pair \<in> set (kept ps)" using Cons.prems(2) k by simp
      then show ?thesis using Cons.IH [OF rest _ Cons.prems(3)] by simp
    qed
  next
    case False
    then have k: "kept (a # ps) = kept ps" by (auto simp: kept_def)
    have "add_pairs w (a # ps) r = add_pairs w ps r" using False by auto
    then show ?thesis using Cons.prems Cons.IH [of r] unfolding k by simp
  qed
qed

lemma add_pairs_distinct:
  "add_pairs w ps r = Inr out \<Longrightarrow> distinct (map fst (own r)) \<Longrightarrow> distinct (map fst (own out))"
proof (induction ps arbitrary: r)
  case Nil
  then show ?case by simp
next
  case (Cons a ps)
  show ?case
  proof (cases "a \<noteq> NoResult \<and> a \<noteq> IgnoreProperty")
    case True
    with Cons.prems have new: "key a \<notin> set (map fst (own r))"
      and rest: "add_pairs w ps (js_assign r (key a) (val a)) = Inr out"
      by (auto split: if_splits)
    have "distinct (map fst (own (js_assign r (key a) (val a))))"
      using js_assign_keys [OF new, of "val a"] Cons.prems(2) new by auto
    then show ?thesis using Cons.IH [OF rest] by simp
  next
    case False
    then have "add_pairs w (a # ps) r = add_pairs w ps r" by auto
    then show ?thesis using Cons.prems Cons.IH [of r] by simp
  qed
qed

lemma add_pairs_no_repeat:
  "add_pairs w ps r = Inr out \<Longrightarrow>
   distinct (filter (\<lambda>k. k \<noteq> ''__proto__'') (map key (kept ps))) \<and>
   set (filter (\<lambda>k. k \<noteq> ''__proto__'') (map key (kept ps))) \<inter> set (map fst (own r)) = {}"
proof (induction ps arbitrary: r)
  case Nil
  then show ?case by (simp add: kept_def)
next
  case (Cons a ps)
  let ?f = "filter (\<lambda>k. k \<noteq> ''__proto__'')"
  show ?case
  proof (cases "a \<noteq> NoResult \<and> a \<noteq> IgnoreProperty")
    case True
    then have k: "kept (a # ps) = a # kept ps" by (simp add: kept_def)
    from True Cons.prems have new: "key a \<notin> set (map fst (own r))"
      and rest: "add_pairs w ps (js_assign r (key a) (val a)) = Inr out"
      by (auto split: if_splits)
    from Cons.IH [OF rest] have d: "distinct (?f (map key (kept ps)))"
      and disj: "set (?f (map key (kept ps))) \<inter> set (map fst (own (js_assign r (key a) (val a)))) = {}"
      by simp_all
    have sub: "set (map fst (own r)) \<subseteq> set (map fst (own (js_assign r (key a) (val a))))"
      using js_assign_grows [OF new, of "val a"] by auto
    have disj0: "set (?f (map key (kept ps))) \<inter> set (map fst (own r)) = {}"
      using disj sub by blast
    show ?thesis
    proof (cases "key a = ''__proto__''")
      case True
      then have "?f (map key (kept (a # ps))) = ?f (map key (kept ps))"
        unfolding k by simp
      then show ?thesis using d disj0 by simp
    next
      case False
      then have "key a \<in> set (map fst (own (js_assign r (key a) (val a))))"
        using new by (simp add: js_assign_new_key)
      then have notin: "key a \<notin> set (?f (map key (kept ps)))" using disj by blast
      have "?f (map key (kept (a # ps))) = key a # ?f (map key (kept ps))"
        unfolding k using False by simp
      then show ?thesis using d disj0 new notin by simp
    qed
  next
    case False
    then have k: "kept (a # ps) = kept ps" by (auto simp: kept_def)
    have "add_pairs w (a # ps) r = add_pairs w ps r" using False by auto
    then show ?thesis using Cons.prems Cons.IH [of r] unfolding k by simp
  qed
qed

lemma add_pairs_ordinary:
  "proto r = None \<Longrightarrow> ''hasOwnProperty'' \<notin> set (map fst (own r)) \<Longrightarrow>
   ordinary_keys (map key (kept ps)) \<Longrightarrow>
   add_pairs w ps r =
     (case first_repeated (map fst (own r)) (map key (kept ps)) of
        Some k \<Rightarrow> Inl (DuplicateKey (duplicate_message k))
      | None \<Rightarrow> Inr (r\<lparr>own := own r @ entries (kept ps)\<rparr>))"
proof (induction ps arbitrary: r)
  case Nil
  then show ?case by (simp add: kept_def entries_def)
next
  case (Cons a ps)
  show ?case
  proof (cases "a \<noteq> NoResult \<and> a \<noteq> IgnoreProperty")
    case True
    then have k: "kept (a # ps) = a # kept ps" by (simp add: kept_def)
    have call: "hasOwnProperty_callable w r"
      using Cons.prems by (simp add: hasOwnProperty_callable_def)
    have ord: "key a \<noteq> ''__proto__''" "key a \<noteq> ''hasOwnProperty''"
      "ordinary_keys (map key (kept ps))"
      using Cons.prems(3) unfolding k by (auto simp: ordinary_keys_def)
    show ?thesis
    proof (cases "key a \<in> set (map fst (own r))")
      case True
      then show ?thesis using \<open>a \<noteq> NoResult \<and> a \<noteq> IgnoreProperty\<close> call unfolding k by simp
    next
      case False
      let ?r = "r\<lparr>own := own r @ [(key a, val a)]\<rparr>"
      have step: "add_pairs w (a # ps) r = add_pairs w ps ?r"
        using \<open>a \<noteq> NoResult \<and> a \<noteq> IgnoreProperty\<close> call False ord(1)
        by (simp add: js_assign_new_key)
      have "add_pairs w ps ?r =
         (case first_repeated (map fst (own ?r)) (map key (kept ps)) of
            Some k \<Rightarrow> Inl (DuplicateKey (duplicate_message k))
          | None \<Rightarrow> Inr (?r\<lparr>own := own ?r @ entries (kept ps)\<rparr>))"
        using Cons.prems(1,2) ord by (intro Cons.IH) simp_all
      then show ?thesis
        unfolding step k using False by (simp add: entries_def split: option.splits)
    qed
  next
    case False
    then have k: "kept (a # ps) = kept ps" by (auto simp: kept_def)
    have "add_pairs w (a # ps) r = add_pairs w ps r" using False by auto
    then show ?thesis unfolding k using Cons.IH [of r] Cons.prems unfolding k by simp
  qed
qed

section \<open>Serialization of an entity\<close>

lemma serialize_Inr_model_pairs:
  "serialize ser w e s = Inr out \<Longrightarrow> \<exists>ps. model_pairs ser w e s = Inr ps"
  by (cases "model_pairs ser w e s") (simp_all add: serialize_def)

lemma serialize_ordinary:
  "model_pairs ser w e s = Inr ps \<Longrightarrow>
   ordinary_keys (map key (kept (injected_pairs ser w e @ ps))) \<Longrightarrow>
   serialize ser w e s =
     (case first_repeated [] (map key (kept (injected_pairs ser w e @ ps))) of
        Some k \<Rightarrow> Inl (DuplicateKey (duplicate_message k))
      | None \<Rightarrow> Inr \<lparr>proto = None, own = entries (kept (injected_pairs ser w e @ ps))\<rparr>)"
  using add_pairs_ordinary [of empty_object "injected_pairs ser w e @ ps" w]
  by (simp add: serialize_def empty_object_def split: option.splits)

lemma first_repeated_None:
  "(first_repeated seen ks = None) = (distinct ks \<and> set ks \<inter> set seen = {})"
  by (induction ks arbitrary: seen) auto

lemma map_results_Inr:
  "map_results f xs = Inr ys \<Longrightarrow> map f xs = map Inr ys"
  by (induction xs arbitrary: ys) (auto split: sum.splits)

lemma getPropertyInjectors_chain:
  "getPropertyInjectors ser t = concat (map (getInjectorsOrDefault ser) (inheritance_chain t))"
  by (induction t rule: inheritance_chain.induct) (simp split: option.splits)

lemma example_model_pairs:
  "model_pairs ser example_world 0 DefaultSerializationSettings
     = Inr [Result ''p'' (Num 5), Result ''manager'' Null]" if "propertyConverters ser = []"
  using that
  by (simp add: model_pairs_def example_world_def Employee_def some_property_def
      computed_property_def manager_property_def serializePropertyValue_def
      PropertyConverter_serialize_def isEntityType_def DefaultSerializationSettings_def)

lemma example_injected:
  "injected_pairs (registerPropertyInjector new_serializer (ByType 2) i) example_world 0 = i 0"
  by (simp add: injected_pairs_def example_world_def Employee_def
      Person_def getInjectorsOrDefault_def registerPropertyInjector_def new_serializer_def)

lemma example_no_converters:
  "propertyConverters (registerPropertyInjector new_serializer k i) = []"
  by (simp add: registerPropertyInjector_def new_serializer_def)

text \<open>
  C4 does not hold of the code. Two injected pairs keyed \<^verbatim>\<open>__proto__\<close> are not skipped
  and share their key, yet \<^verbatim>\<open>serialize\<close> raises nothing: the assignments go to the
  inherited setter, no own member is created, \<^verbatim>\<open>hasOwnProperty\<close> answers false both
  times, and the second object silently replaces the first as prototype (with numbers as
  values both pairs are dropped). A pair keyed \<^verbatim>\<open>hasOwnProperty\<close> hides the method, and
  the next pair raises a \<^verbatim>\<open>TypeError\<close> instead of the descriptive error. For an ordinary
  key, here \<open>p\<close>, the collision raises the descriptive error.
\<close>

theorem serialize_proto_duplicates_pass:
  "injected_pairs proto_serializer example_world 0 =
     [Result ''__proto__'' (Obj [(''a'', Num 1)]), Result ''__proto__'' (Obj [(''a'', Num 2)])] \<and>
   serialize proto_serializer example_world 0 DefaultSerializationSettings =
     Inr \<lparr>proto = Some (Obj [(''a'', Num 2)]), own = [(''p'', Num 5), (''manager'', Null)]\<rparr> \<and>
   injected_pairs proto_number_serializer example_world 0 =
     [Result ''__proto__'' (Num 1), Result ''__proto__'' (Num 2)] \<and>
   serialize proto_number_serializer example_world 0 DefaultSerializationSettings =
     Inr \<lparr>proto = None, own = [(''p'', Num 5), (''manager'', Null)]\<rparr> \<and>
   injected_pairs shadowing_serializer example_world 0 = [Result ''hasOwnProperty'' (Num 1)] \<and>
   serialize shadowing_serializer example_world 0 DefaultSerializationSettings = Inl TypeError \<and>
   injected_pairs colliding_serializer example_world 0 = [Result ''p'' (Str ''injected'')] \<and>
   serialize colliding_serializer example_world 0 DefaultSerializationSettings =
     Inl (DuplicateKey ''Property 'p' was encountered twice during serialization. Make sure injected properties do not collide with model properties.'')"
  by (simp add: serialize_def example_model_pairs example_no_converters example_injected
      proto_serializer_def proto_number_serializer_def shadowing_serializer_def
      colliding_serializer_def empty_object_def hasOwnProperty_callable_def js_assign_def
      duplicate_message_def)

text \<open>
  For keys that are neither \<^verbatim>\<open>__proto__\<close> nor \<^verbatim>\<open>hasOwnProperty\<close> the object returned
  has the injected entries, collected along the inheritance chain, followed by the
  entries of the model properties, in the order of their assignment.
\<close>

lemma serialize_assignment_order:
  assumes "serialize ser w e s = Inr out"
    and "model_pairs ser w e s = Inr ps"
    and "ordinary_keys (map key (kept (injected_pairs ser w e @ ps)))"
  shows "out = \<lparr>proto = None, own = entries (kept (injected_pairs ser w e)) @ entries (kept ps)\<rparr>"
    and "map Inr ps =
           map (\<lambda>prop. serializePropertyValue ser w e prop (prop_value w prop e) s)
             (filter (\<lambda>p. \<not> isCalculated p \<and> \<not> isConstant p) (properties (meta_type w e)))"
    and "injected_pairs ser w e =
           concat (map (\<lambda>i. i e)
             (concat (map (\<lambda>t. registered_injectors ser (ByType (type_id t)) @
                               registered_injectors ser (ByName (fullName t)))
                        (inheritance_chain (meta_type w e)))))"
proof -
  show "out = \<lparr>proto = None, own = entries (kept (injected_pairs ser w e)) @ entries (kept ps)\<rparr>"
    using assms(1) serialize_ordinary [OF assms(2,3)]
    by (simp add: kept_def entries_def split: option.splits)
  show "map Inr ps =
      map (\<lambda>prop. serializePropertyValue ser w e prop (prop_value w prop e) s)
        (filter (\<lambda>p. \<not> isCalculated p \<and> \<not> isConstant p) (properties (meta_type w e)))"
    using assms(2) map_results_Inr unfolding model_pairs_def by fastforce
  show "injected_pairs ser w e =
      concat (map (\<lambda>i. i e)
        (concat (map (\<lambda>t. registered_injectors ser (ByType (type_id t)) @
                          registered_injectors ser (ByName (fullName t)))
                   (inheritance_chain (meta_type w e)))))"
    by (simp add: injected_pairs_def getPropertyInjectors_chain getInjectorsOrDefault_def
        registered_injectors_def cong: map_cong)
qed

lemma numbering_pairs:
  "injected_pairs numbering_serializer example_world 0 = [Result ''tag'' (Num 1)]"
  "model_pairs numbering_serializer example_world 0 DefaultSerializationSettings
     = Inr [Result ''7'' (Num 5), Result ''manager'' Null]"
  by (simp_all add: injected_pairs_def model_pairs_def numbering_serializer_def
      numbering_converter_def example_world_def Employee_def Person_def some_property_def
      computed_property_def manager_property_def getInjectorsOrDefault_def
      registerPropertyInjector_def registerPropertyConverter_def new_serializer_def
      serializePropertyValue_def PropertyConverter_serialize_def isEntityType_def
      DefaultSerializationSettings_def)

text \<open>
  C5 does not hold of the code. The injected pair \<open>tag\<close> is assigned before the model
  pair that a converter keys \<open>7\<close>, but an object lists its array-index keys first: in
  the key order of the output \<open>7\<close> precedes \<open>tag\<close>.
\<close>

theorem serialize_index_key_first:
  "injected_pairs numbering_serializer example_world 0 = [Result ''tag'' (Num 1)] \<and>
   model_pairs numbering_serializer example_world 0 DefaultSerializationSettings
     = Inr [Result ''7'' (Num 5), Result ''manager'' Null] \<and>
   serialize numbering_serializer example_world 0 DefaultSerializationSettings =
     Inr \<lparr>proto = None, own = [(''tag'', Num 1), (''7'', Num 5), (''manager'', Null)]\<rparr> \<and>
   own_keys \<lparr>proto = None, own = [(''tag'', Num 1), (''7'', Num 5), (''manager'', Null)]\<rparr>
     = [''7'', ''tag'', ''manager'']"
  by (simp add: numbering_pairs serialize_def empty_object_def hasOwnProperty_callable_def
      js_assign_def own_keys_def is_array_index_def is_digit_def index_value_def digit_value_def)

section \<open>The ignore sentinel is recognized by identity\<close>

lemma kept_set: "r \<in> set (kept ps) = (r \<in> set ps \<and> r \<noteq> NoResult \<and> r \<noteq> IgnoreProperty)"
  by (auto simp: kept_def)

lemma repeated_key_not_distinct:
  "1 < length (filter (\<lambda>r. key r = k) rs) \<Longrightarrow> k \<noteq> q \<Longrightarrow>
   \<not> distinct (filter (\<lambda>k'. k' \<noteq> q) (map key rs))"
proof (induction rs)
  case Nil
  then show ?case by simp
next
  case (Cons r rs)
  show ?case
  proof (cases "key r = k")
    case True
    with Cons.prems have "filter (\<lambda>r. key r = k) rs \<noteq> []" by auto
    then obtain r' where "r' \<in> set rs" "key r' = k"
      by (metis (mono_tags, lifting) filter_False)
    then have "key r \<in> set (filter (\<lambda>k'. k' \<noteq> q) (map key rs))"
      using True Cons.prems(2) by auto
    then show ?thesis using True Cons.prems(2) by simp
  next
    case False
    with Cons show ?thesis by simp
  qed
qed

text \<open>
  C9: a result object that is not the exported \<^verbatim>\<open>IgnoreProperty\<close> object but has its
  contents (key \<open>ignore\<close>, value \<open>ignore\<close>) is an ordinary pair. The first matching
  converter answering with it has its answer returned by \<^verbatim>\<open>serializePropertyValue\<close>,
  with \<^verbatim>\<open>force\<close> or without, and its key is replaced by the alias under \<^verbatim>\<open>useAliases\<close>.
  In \<^verbatim>\<open>serialize\<close> the pairs skipped are the missing ones and the sentinel itself: an
  object returned has the member \<open>ignore\<close> for the look-alike, and two pairs with the key
  \<open>ignore\<close> that are not skipped make \<^verbatim>\<open>serialize\<close> raise. When no pair is keyed
  \<^verbatim>\<open>__proto__\<close> or \<^verbatim>\<open>hasOwnProperty\<close>, the object returned has exactly the entries of the
  pairs not skipped, and the error raised is the duplicate-key error.
\<close>

theorem lookalike_is_ordinary_pair:
  "Result ''ignore'' (Str ''ignore'') \<noteq> IgnoreProperty \<and>
   key (Result ''ignore'' (Str ''ignore'')) = key IgnoreProperty \<and>
   val (Result ''ignore'' (Str ''ignore'')) = val IgnoreProperty \<and>
   (filter (\<lambda>c. shouldConvert c e p) (propertyConverters ser) = c # cs \<longrightarrow>
    conv_serialize c e v p s = Result ''ignore'' (Str ''ignore'') \<longrightarrow>
      serializePropertyValue ser w e p v s =
        Inr (if flag (useAliases s)
             then Result (alias_or_key ser w p (Result ''ignore'' (Str ''ignore''))) (Str ''ignore'')
             else Result ''ignore'' (Str ''ignore''))) \<and>
   (model_pairs ser w e s = Inr ps \<longrightarrow>
    Result ''ignore'' (Str ''ignore'') \<in> set (injected_pairs ser w e @ ps) \<longrightarrow>
      (\<forall>out. serialize ser w e s = Inr out \<longrightarrow>
         (''ignore'', Str ''ignore'') \<in> set (own out) \<and>
         (ordinary_keys (map key (kept (injected_pairs ser w e @ ps))) \<longrightarrow>
            out = \<lparr>proto = None, own = entries (kept (injected_pairs ser w e @ ps))\<rparr>)) \<and>
      (1 < length (filter (\<lambda>r. key r = ''ignore'') (kept (injected_pairs ser w e @ ps))) \<longrightarrow>
         (\<exists>err. serialize ser w e s = Inl err \<and>
            (err = TypeError \<or> (\<exists>k. err = DuplicateKey (duplicate_message k)))) \<and>
         (ordinary_keys (map key (kept (injected_pairs ser w e @ ps))) \<longrightarrow>
            (\<exists>k. serialize ser w e s = Inl (DuplicateKey (duplicate_message k))))))"
proof -
  let ?L = "Result ''ignore'' (Str ''ignore'')"
  let ?seq = "injected_pairs ser w e @ ps"
  have a: "?L \<noteq> IgnoreProperty \<and> key ?L = key IgnoreProperty \<and> val ?L = val IgnoreProperty"
    by simp
  have b: "serializePropertyValue ser w e p v s =
        Inr (if flag (useAliases s) then Result (alias_or_key ser w p ?L) (Str ''ignore'') else ?L)"
    if "filter (\<lambda>c. shouldConvert c e p) (propertyConverters ser) = c # cs"
      and "conv_serialize c e v p s = ?L"
    using that by (simp add: serializePropertyValue_def Let_def set_key_def)
  have c: "(''ignore'', Str ''ignore'') \<in> set (own out) \<and>
      (ordinary_keys (map key (kept ?seq)) \<longrightarrow> out = \<lparr>proto = None, own = entries (kept ?seq)\<rparr>)"
    if mp: "model_pairs ser w e s = Inr ps"
      and mem: "?L \<in> set ?seq"
      and out: "serialize ser w e s = Inr out" for out
  proof -
    have add: "add_pairs w ?seq empty_object = Inr out"
      using out mp by (simp add: serialize_def)
    have "?L \<in> set (kept ?seq)"
      using mem by (simp only: kept_set) simp
    from add_pairs_member [OF add this] have "(''ignore'', Str ''ignore'') \<in> set (own out)"
      by simp
    moreover have "out = \<lparr>proto = None, own = entries (kept ?seq)\<rparr>"
      if "ordinary_keys (map key (kept ?seq))"
      using out serialize_ordinary [OF mp that] by (simp split: option.splits)
    ultimately show ?thesis by blast
  qed
  have d: "(\<exists>err. serialize ser w e s = Inl err \<and>
            (err = TypeError \<or> (\<exists>k. err = DuplicateKey (duplicate_message k)))) \<and>
         (ordinary_keys (map key (kept ?seq)) \<longrightarrow>
            (\<exists>k. serialize ser w e s = Inl (DuplicateKey (duplicate_message k))))"
    if mp: "model_pairs ser w e s = Inr ps"
      and two: "1 < length (filter (\<lambda>r. key r = ''ignore'') (kept ?seq))"
  proof -
    have eq: "serialize ser w e s = add_pairs w ?seq empty_object"
      using mp by (simp add: serialize_def)
    have nd: "\<not> distinct (filter (\<lambda>k'. k' \<noteq> ''__proto__'') (map key (kept ?seq)))"
      using two by (rule repeated_key_not_distinct) simp
    have "\<exists>err. add_pairs w ?seq empty_object = Inl err"
    proof (cases "add_pairs w ?seq empty_object")
      case (Inl err)
      then show ?thesis by blast
    next
      case (Inr out)
      from add_pairs_no_repeat [OF this] nd show ?thesis by blast
    qed
    then obtain err where err: "add_pairs w ?seq empty_object = Inl err" by blast
    from add_pairs_errors [OF this]
    have form: "err = TypeError \<or> (\<exists>k. err = DuplicateKey (duplicate_message k))" by blast
    have "\<exists>k. serialize ser w e s = Inl (DuplicateKey (duplicate_message k))"
      if ord: "ordinary_keys (map key (kept ?seq))"
    proof -
      have "\<not> distinct (map key (kept ?seq))"
        using nd distinct_filter by blast
      then have "first_repeated [] (map key (kept ?seq)) \<noteq> None"
        by (simp add: first_repeated_None)
      then show ?thesis using serialize_ordinary [OF mp ord] by auto
    qed
    then show ?thesis using eq err form by simp
  qed
  show ?thesis using a b c d by blast
qed

text \<open>
  With the look-alike converter and the alias \<open>ext\<close> for \<open>p\<close>: the pair is renamed under
  \<^verbatim>\<open>force\<close> and \<^verbatim>\<open>useAliases\<close>; serialized with aliases the entity has the members
  \<open>ext\<close> and \<open>ignore\<close>; without aliases both properties claim the key \<open>ignore\<close>.
\<close>

theorem lookalike_is_ordinary_pair_witness:
  "serializePropertyValue lookalike_serializer example_world 0 some_property (Num 5)
     \<lparr>useAliases = Some True, force = Some True\<rparr> = Inr (Result ''ext'' (Str ''ignore'')) \<and>
   model_pairs lookalike_serializer example_world 0 \<lparr>useAliases = Some True, force = None\<rparr>
     = Inr [Result ''ext'' (Str ''ignore''), Result ''ignore'' (Str ''ignore'')] \<and>
   serialize lookalike_serializer example_world 0 \<lparr>useAliases = Some True, force = None\<rparr>
     = Inr \<lparr>proto = None, own = [(''ext'', Str ''ignore''), (''ignore'', Str ''ignore'')]\<rparr> \<and>
   model_pairs lookalike_serializer example_world 0 DefaultSerializationSettings
     = Inr [Result ''ignore'' (Str ''ignore''), Result ''ignore'' (Str ''ignore'')] \<and>
   (\<exists>k. serialize lookalike_serializer example_world 0 DefaultSerializationSettings
          = Inl (DuplicateKey (duplicate_message k)))"
proof -
  let ?L = "Result ''ignore'' (Str ''ignore'')"
  let ?sa = "\<lparr>useAliases = Some True, force = None\<rparr>"
  let ?sf = "\<lparr>useAliases = Some True, force = Some True\<rparr>"
  have convs: "propertyConverters lookalike_serializer = [lookalike_converter]"
    by (simp add: lookalike_serializer_def registerPropertyAlias_def registerPropertyConverter_def
        new_serializer_def)
  have cand: "filter (\<lambda>c. shouldConvert c 0 some_property) (propertyConverters lookalike_serializer)
      = lookalike_converter # []"
    by (simp add: convs lookalike_converter_def)
  have res: "conv_serialize lookalike_converter 0 (Num 5) some_property ?sf = ?L"
    by (simp add: lookalike_converter_def)
  have al: "alias_or_key lookalike_serializer example_world some_property ?L = ''ext''"
    by (simp add: alias_or_key_def getPropertyAliases_def object_assign_def lookalike_serializer_def
        registerPropertyAlias_def assign_alias_def registerPropertyConverter_def new_serializer_def
        example_world_def some_property_def Person_def)
  have noalias: "alias_or_key lookalike_serializer example_world manager_property ?L = ''ignore''"
    by (simp add: alias_or_key_def getPropertyAliases_def object_assign_def lookalike_serializer_def
        registerPropertyAlias_def assign_alias_def registerPropertyConverter_def new_serializer_def
        example_world_def manager_property_def Person_def inherited_member_key_def
        Object_prototype_functions_def)
  have inj: "injected_pairs lookalike_serializer example_world 0 = []"
    by (simp add: injected_pairs_def lookalike_serializer_def example_world_def Employee_def
        Person_def getInjectorsOrDefault_def registerPropertyAlias_def registerPropertyConverter_def
        new_serializer_def)
  have props: "filter (\<lambda>p. \<not> isCalculated p \<and> \<not> isConstant p) (properties (meta_type example_world 0))
      = [some_property, manager_property]"
    by (simp add: example_world_def Employee_def some_property_def computed_property_def
        manager_property_def)
  have spv: "serializePropertyValue lookalike_serializer example_world 0 p v s =
      Inr (if flag (useAliases s) then set_key ?L (alias_or_key lookalike_serializer example_world p ?L)
           else ?L)" for p v s
    by (simp add: serializePropertyValue_def convs lookalike_converter_def)
  have mpa: "model_pairs lookalike_serializer example_world 0 ?sa = Inr [Result ''ext'' (Str ''ignore''), ?L]"
    by (simp add: model_pairs_def props spv al noalias set_key_def)
  have mpd: "model_pairs lookalike_serializer example_world 0 DefaultSerializationSettings = Inr [?L, ?L]"
    by (simp add: model_pairs_def props spv DefaultSerializationSettings_def)
  have outa: "serialize lookalike_serializer example_world 0 ?sa
      = Inr \<lparr>proto = None, own = [(''ext'', Str ''ignore''), (''ignore'', Str ''ignore'')]\<rparr>"
    by (simp add: serialize_def mpa inj empty_object_def hasOwnProperty_callable_def js_assign_def)
  note t1 = lookalike_is_ordinary_pair
    [where e = 0 and p = some_property and ser = lookalike_serializer and c = lookalike_converter
      and cs = "[]" and v = "Num 5" and s = ?sf and w = example_world]
  note t2 = lookalike_is_ordinary_pair
    [where ser = lookalike_serializer and w = example_world and e = 0 and s = ?sa
      and ps = "[Result ''ext'' (Str ''ignore''), ?L]"]
  note t3 = lookalike_is_ordinary_pair
    [where ser = lookalike_serializer and w = example_world and e = 0
      and s = DefaultSerializationSettings and ps = "[?L, ?L]"]
  have w1: "serializePropertyValue lookalike_serializer example_world 0 some_property (Num 5) ?sf
      = Inr (Result ''ext'' (Str ''ignore''))"
    using t1 cand res al by simp
  have w3: "\<exists>k. serialize lookalike_serializer example_world 0 DefaultSerializationSettings
          = Inl (DuplicateKey (duplicate_message k))"
    using t3 mpd by (simp add: inj kept_def ordinary_keys_def)
  have w2: "(''ignore'', Str ''ignore'') \<in> set (own \<lparr>proto = None, own = [(''ext'', Str ''ignore''), (''ignore'', Str ''ignore'')]\<rparr>)"
    using t2 mpa outa by (simp add: inj kept_def entries_def)
  show ?thesis using w1 w2 w3 mpa mpd outa by simp
qed

section \<open>Round trip without plug-ins\<close>

lemma depth_elem: "x \<in> set xs \<Longrightarrow> depth x \<le> foldr max (map depth xs) 0"
  by (induction xs) auto

lemma collect_all_Inr:
  "(\<And>x. x \<in> set xs \<Longrightarrow> f x = Some (Inr x)) \<Longrightarrow> collect (map f xs) = Some (Inr xs)"
  by (induction xs) simp_all

lemma deserialize_value_unchanged:
  assumes "propertyConverters ser = []" and "propertyType p = ValueType T"
    and "\<not> isArray v" and "\<not> isString v" and "v \<noteq> IgnorePropertyObj"
  shows "deserialize (Suc m) ser w inst v p ctx ce = Some (Inr v)"
  using assms by (simp add: apply_converter_def)

lemma deserialize_plain_value:
  assumes "propertyConverters ser = []" and "propertyType p = ValueType T"
  shows "plain p v \<Longrightarrow> depth v < n \<Longrightarrow> deserialize n ser w inst v p ctx ce = Some (Inr v)"
proof (induction v arbitrary: n ce)
  case (Arr xs)
  then obtain m where n: "n = Suc m" by (cases n) auto
  show ?case
  proof (cases "isList p")
    case True
    have "deserialize m ser w inst x p ctx True = Some (Inr x)" if "x \<in> set xs" for x
    proof -
      have "plain p x" using Arr.prems(1) True that by (simp add: list_all_iff)
      moreover have "depth x < m" using Arr.prems(2) n depth_elem [OF that] by simp
      ultimately show ?thesis using Arr.IH that by blast
    qed
    then have "collect (map (\<lambda>i. deserialize m ser w inst i p ctx True) xs) = Some (Inr xs)"
      by (rule collect_all_Inr)
    then show ?thesis using assms True n by (simp add: apply_converter_def)
  next
    case False
    then show ?thesis using assms n by (simp add: apply_converter_def)
  qed
next
  case (Str s)
  then obtain m where n: "n = Suc m" by (cases n) auto
  show ?case using assms n Str by (auto simp: apply_converter_def)
qed (auto simp: gr0_conv_Suc deserialize_value_unchanged [OF assms] simp del: deserialize.simps)


lemma default_result_form:
  "PropertyConverter_serialize w e v p s = Inr r \<Longrightarrow> \<exists>d. r = Result (name p) d"
  by (auto simp: PropertyConverter_serialize_def split: if_splits sum.splits)

lemma slice_same: "slice v = Inr v' \<Longrightarrow> v' = v"
  by (cases v) simp_all

lemma default_value_type:
  "propertyType p = ValueType T \<Longrightarrow> PropertyConverter_serialize w e v p s = Inr r \<Longrightarrow>
   r = Result (name p) v"
  by (auto simp: PropertyConverter_serialize_def isEntityType_def slice_same
      split: if_splits sum.splits)

lemma default_entity_falsy:
  "\<not> truthy v \<Longrightarrow> PropertyConverter_serialize w e v p s = Inr (Result (name p) v)"
  by (simp add: PropertyConverter_serialize_def)

lemma default_entity_single:
  "propertyType p = EntityType c \<Longrightarrow> \<not> isArray v \<Longrightarrow> truthy v \<Longrightarrow>
   PropertyConverter_serialize w e v p s = Inr r \<Longrightarrow>
   \<exists>d. call_serialize w s v = Inr d \<and> r = Result (name p) d"
  by (auto simp: PropertyConverter_serialize_def isEntityType_def split: if_splits sum.splits)

lemma default_entity_list:
  "propertyType p = EntityType c \<Longrightarrow> isList p \<Longrightarrow> isArray v \<Longrightarrow>
   PropertyConverter_serialize w e v p s = Inr r \<Longrightarrow>
   \<exists>ds. map_results (call_serialize w s) (elems v) = Inr ds \<and> r = Result (name p) (Arr ds)"
  by (cases v) (auto simp: PropertyConverter_serialize_def isEntityType_def split: sum.splits)

lemma serializePropertyValue_plain:
  assumes "propertyConverters ser = []" and "propertyAliases ser = (\<lambda>k. None)"
    and "PropertyConverter_serialize w e v p s = Inr (Result (name p) d)"
  shows "serializePropertyValue ser w e p v s = Inr (Result (serialized_key s p) d)"
  using assms
  by (simp add: serializePropertyValue_def set_key_def alias_or_key_def getPropertyAliases_def
      object_assign_def serialized_key_def split: option.splits)

lemma serializePropertyValue_plain_error:
  assumes "propertyConverters ser = []"
    and "PropertyConverter_serialize w e v p s = Inl err"
  shows "serializePropertyValue ser w e p v s = Inl err"
  using assms by (simp add: serializePropertyValue_def)

lemma no_injectors:
  "propertyInjectors ser = (\<lambda>k. None) \<Longrightarrow> getPropertyInjectors ser t = []"
  by (induction t rule: getPropertyInjectors.induct)
    (simp add: getInjectorsOrDefault_def split: option.splits)

lemma map_results_member:
  "map_results f xs = Inr ys \<Longrightarrow> x \<in> set xs \<Longrightarrow> \<exists>y. f x = Inr y \<and> y \<in> set ys"
  by (induction xs arbitrary: ys) (auto split: sum.splits)

lemma serialize_binds_property:
  assumes conv: "propertyConverters ser = []" and inj: "propertyInjectors ser = (\<lambda>k. None)"
    and al: "propertyAliases ser = (\<lambda>k. None)"
    and out: "serialize ser w e s = Inr out"
    and p: "p \<in> set (properties (meta_type w e))" "\<not> isCalculated p" "\<not> isConstant p"
    and k: "serialized_key s p \<noteq> ''__proto__''"
  shows "\<exists>d. map_of (own out) (serialized_key s p) = Some d \<and>
           PropertyConverter_serialize w e (prop_value w p e) p s = Inr (Result (name p) d)"
proof -
  from out obtain ps where ps: "model_pairs ser w e s = Inr ps"
    using serialize_Inr_model_pairs by blast
  have noinj: "injected_pairs ser w e = []"
    by (simp add: injected_pairs_def no_injectors [OF inj])
  have add: "add_pairs w ps empty_object = Inr out"
    using out ps noinj by (simp add: serialize_def)
  have dist: "distinct (map fst (own out))"
    using add_pairs_distinct [OF add] by (simp add: empty_object_def)
  have "p \<in> set (filter (\<lambda>p. \<not> isCalculated p \<and> \<not> isConstant p) (properties (meta_type w e)))"
    using p by simp
  then obtain r where r: "serializePropertyValue ser w e p (prop_value w p e) s = Inr r" "r \<in> set ps"
    using ps map_results_member unfolding model_pairs_def by fastforce
  obtain d where def: "PropertyConverter_serialize w e (prop_value w p e) p s = Inr (Result (name p) d)"
  proof (cases "PropertyConverter_serialize w e (prop_value w p e) p s")
    case (Inl err)
    then show ?thesis using serializePropertyValue_plain_error [OF conv Inl] r(1) by simp
  next
    case (Inr r')
    then show ?thesis using default_result_form that by blast
  qed
  have rk: "r = Result (serialized_key s p) d"
    using serializePropertyValue_plain [OF conv al def] r(1) by simp
  then have "r \<in> set (kept ps)" using r(2) by (simp add: kept_def)
  from add_pairs_member [OF add this] have "(serialized_key s p, d) \<in> set (own out)"
    using rk k by simp
  then have "map_of (own out) (serialized_key s p) = Some d" using dist by simp
  then show ?thesis using def by blast
qed

lemma falsy_not_object: "\<not> truthy v \<Longrightarrow> \<not> instanceofObject v"
  by (cases v) simp_all

lemma deserialize_entity_falsy:
  assumes "propertyConverters ser = []" and "propertyType p = EntityType c" and "\<not> truthy v"
  shows "deserialize (Suc n) ser w inst v p ctx True = Some (Inr Undefined)"
proof -
  have "apply_converter ser inst v p = v" using assms(1) by (simp add: apply_converter_def)
  then show ?thesis
    using assms not_object_cases [OF falsy_not_object [OF assms(3)], of w c]
      falsy_not_object [OF assms(3)]
    by (simp add: Let_def)
qed

lemma deserialize_entity_object:
  assumes "propertyConverters ser = []" and "propertyType p = EntityType c"
  shows "deserialize (Suc n) ser w inst (Obj fs) p ctx True = Some (resolveEntity w ctx c (Obj fs))"
  using assms by (simp add: apply_converter_def)

lemma resolveEntity_object:
  "resolveEntity w ctx c (Obj fs) = Inr (resolve_or_construct w ctx c fs)"
  by (simp add: resolveEntity_def resolve_or_construct_def Let_def split: option.splits)

lemma pooled_resolves:
  assumes "pooled w s c v"
  shows "\<exists>b fs. v = Inst b \<and> entity_serialize w b s = Inr (Obj fs) \<and>
           resolve_or_construct w ctx c fs = Inst b"
proof -
  from assms obtain b where b: "v = Inst b"
    by (cases v) (simp_all add: pooled_def)
  from assms b obtain r where r: "entity_serialize w b s = Inr r"
    by (cases "entity_serialize w b s") (simp_all add: pooled_def)
  from assms b r obtain fs where fs: "r = Obj fs"
    by (cases r) (simp_all add: pooled_def)
  from assms b r fs obtain idn where idn: "identifierName (types w c) = Some idn"
    by (cases "identifierName (types w c)") (simp_all add: pooled_def)
  from assms b r fs idn have "truthy (object_member fs idn)"
    "meta_get w c (object_member fs idn) = Some b"
    by (simp_all add: pooled_def)
  then have "resolve_or_construct w ctx c fs = Inst b"
    using idn by (simp add: resolve_or_construct_def)
  then show ?thesis using b r fs by simp
qed

lemma map_results_all_Inr:
  "map f xs = map Inr ys \<Longrightarrow> map_results f xs = Inr ys"
  by (induction xs arbitrary: ys) auto

lemma resolve_objects:
  "map_results (\<lambda>x. if instanceOf w x c then Inr x else resolveEntity w ctx c x) (map Obj fss)
     = Inr (map (resolve_or_construct w ctx c) fss)"
  by (induction fss) (simp_all add: resolveEntity_object)

lemma pooled_list_states:
  "list_all (pooled w s c) bs \<Longrightarrow>
   \<exists>fss. map (call_serialize w s) bs = map (\<lambda>fs. Inr (Obj fs)) fss \<and>
         map (resolve_or_construct w ctx c) fss = bs"
proof (induction bs)
  case Nil
  then show ?case by simp
next
  case (Cons b bs)
  from Cons.prems have "pooled w s c b" by simp
  from pooled_resolves [OF this] obtain e fs where b: "b = Inst e"
    "entity_serialize w e s = Inr (Obj fs)" "resolve_or_construct w ctx c fs = Inst e"
    by blast
  from Cons obtain fss where fss: "map (call_serialize w s) bs = map (\<lambda>fs. Inr (Obj fs)) fss"
    "map (resolve_or_construct w ctx c) fss = bs"
    by auto
  have "map (call_serialize w s) (b # bs) = map (\<lambda>fs. Inr (Obj fs)) (fs # fss) \<and>
        map (resolve_or_construct w ctx c) (fs # fss) = b # bs"
    using b fss by simp
  then show ?case by (rule exI [of _ "fs # fss"])
qed

lemma deserialize_entity_list:
  assumes "propertyConverters ser = []" and "propertyType p = EntityType c" and "isList p"
  shows "deserialize (Suc n) ser w inst (Arr ds) p ctx True =
     Some (case map_results (\<lambda>x. if instanceOf w x c then Inr x else resolveEntity w ctx c x) ds of
             Inl e \<Rightarrow> Inl e | Inr vs \<Rightarrow> Inr (Arr vs))"
  using assms by (simp add: apply_converter_def)

lemma serialized_fields_Some:
  "serialized_fields w s v \<noteq> None \<Longrightarrow>
   \<exists>b. v = Inst b \<and> entity_serialize w b s = Inr (Obj (the (serialized_fields w s v)))"
  by (cases v) (auto split: sum.splits jsval.splits)

lemma serialized_fields_list:
  "list_all (\<lambda>b. serialized_fields w s b \<noteq> None) bs \<Longrightarrow>
   map (call_serialize w s) bs =
     map (\<lambda>fs. Inr (Obj fs)) (map (\<lambda>b. the (serialized_fields w s b)) bs)"
proof (induction bs)
  case Nil
  then show ?case by simp
next
  case (Cons b bs)
  from Cons.prems have "serialized_fields w s b \<noteq> None" by simp
  from serialized_fields_Some [OF this] obtain e where
    "b = Inst e" "entity_serialize w e s = Inr (Obj (the (serialized_fields w s b)))"
    by blast
  then have "call_serialize w s b = Inr (Obj (the (serialized_fields w s b)))" by simp
  then show ?case using Cons by simp
qed

text \<open>
  C1, as the code has it. Let no converter, injector or alias be registered, let
  \<^verbatim>\<open>serialize\<close> return an object for the entity, and let \<open>p\<close> be a property of its type
  that is neither calculated nor constant, with value \<open>v\<close>, whose key is not
  \<^verbatim>\<open>__proto__\<close>. The object has a member under the key of \<open>p\<close>, with a value \<open>d\<close>, and
  \<^verbatim>\<open>deserialize\<close> of \<open>d\<close> for \<open>p\<close>
  \<^item> returns \<open>v\<close> when \<open>p\<close> is not entity-typed and \<open>v\<close> is plain (given a recursion
    bound above the nesting depth of \<open>v\<close>);
  \<^item> produces no value when \<open>p\<close> is entity-typed and \<open>v\<close> is falsy (\<^verbatim>\<open>null\<close>,
    \<^verbatim>\<open>undefined\<close>);
  \<^item> returns, when \<open>p\<close> is entity-typed and \<open>v\<close> is an entity, or a list of entities,
    serialized to plain objects, the outcome of resolve-or-construct on each serialized
    state: the instance that the type's lookup finds under the identifier read from the
    state, and otherwise (no identifier declared, a falsy identifier, or a lookup that
    finds nothing) an instance newly constructed from the identifier, the state and the
    context;
  \<^item> so returns \<open>v\<close> itself when the lookup finds each entity of \<open>v\<close> under the
    identifier of its serialized state.
\<close>

theorem round_trip_without_plugins:
  assumes conv: "propertyConverters ser = []" and inj: "propertyInjectors ser = (\<lambda>k. None)"
    and al: "propertyAliases ser = (\<lambda>k. None)"
    and out: "serialize ser w e s = Inr out"
    and p: "p \<in> set (properties (meta_type w e))" "\<not> isCalculated p" "\<not> isConstant p"
    and k: "serialized_key s p \<noteq> ''__proto__''"
  shows "\<exists>d. map_of (own out) (serialized_key s p) = Some d \<and>
     (\<forall>T. propertyType p = ValueType T \<longrightarrow> plain p (prop_value w p e) \<longrightarrow>
        d = prop_value w p e \<and>
        (\<forall>n. depth (prop_value w p e) < n \<longrightarrow>
           deserialize n ser w inst d p ctx True = Some (Inr (prop_value w p e)))) \<and>
     (\<forall>c. propertyType p = EntityType c \<longrightarrow>
        (\<not> truthy (prop_value w p e) \<longrightarrow>
           d = prop_value w p e \<and>
           deserialize (Suc n) ser w inst d p ctx True = Some (Inr Undefined)) \<and>
        (serialized_fields w s (prop_value w p e) \<noteq> None \<longrightarrow>
           d = Obj (the (serialized_fields w s (prop_value w p e))) \<and>
           deserialize (Suc n) ser w inst d p ctx True
             = Some (Inr (resolve_or_construct w ctx c
                            (the (serialized_fields w s (prop_value w p e)))))) \<and>
        (isList p \<longrightarrow> isArray (prop_value w p e) \<longrightarrow>
         list_all (\<lambda>b. serialized_fields w s b \<noteq> None) (elems (prop_value w p e)) \<longrightarrow>
           d = Arr (map (\<lambda>b. Obj (the (serialized_fields w s b))) (elems (prop_value w p e))) \<and>
           deserialize (Suc n) ser w inst d p ctx True
             = Some (Inr (Arr (map (\<lambda>b. resolve_or_construct w ctx c
                                          (the (serialized_fields w s b)))
                                (elems (prop_value w p e)))))) \<and>
        (pooled w s c (prop_value w p e) \<longrightarrow>
           deserialize (Suc n) ser w inst d p ctx True = Some (Inr (prop_value w p e))) \<and>
        (isList p \<longrightarrow> isArray (prop_value w p e) \<longrightarrow>
         list_all (pooled w s c) (elems (prop_value w p e)) \<longrightarrow>
           deserialize (Suc n) ser w inst d p ctx True = Some (Inr (prop_value w p e))))"
proof -
  let ?v = "prop_value w p e"
  from serialize_binds_property [OF conv inj al out p k] obtain d where
    d: "map_of (own out) (serialized_key s p) = Some d"
    and def: "PropertyConverter_serialize w e ?v p s = Inr (Result (name p) d)"
    by blast
  have scalar: "d = ?v \<and> (\<forall>n. depth ?v < n \<longrightarrow> deserialize n ser w inst d p ctx True = Some (Inr ?v))"
    if t: "propertyType p = ValueType T" and pl: "plain p ?v" for T
  proof -
    have "d = ?v" using default_value_type [OF t def] by simp
    then show ?thesis using deserialize_plain_value [OF conv t pl] by simp
  qed
  have falsy: "d = ?v \<and> deserialize (Suc n) ser w inst d p ctx True = Some (Inr Undefined)"
    if t: "propertyType p = EntityType c" and f: "\<not> truthy ?v" for c
  proof -
    have "d = ?v" using def default_entity_falsy [OF f, of w e p s] by simp
    then show ?thesis using deserialize_entity_falsy [OF conv t f] by simp
  qed
  have single: "d = Obj fs \<and>
      deserialize (Suc n) ser w inst d p ctx True = Some (Inr (resolve_or_construct w ctx c fs))"
    if t: "propertyType p = EntityType c" and b: "?v = Inst b"
      and es: "entity_serialize w b s = Inr (Obj fs)" for c b fs
  proof -
    have "\<not> isArray ?v" "truthy ?v" using b by simp_all
    from default_entity_single [OF t this def] have "d = Obj fs" using b es by simp
    then show ?thesis
      using deserialize_entity_object [OF conv t] by (simp add: resolveEntity_object)
  qed
  have lst: "d = Arr (map Obj fss) \<and>
      deserialize (Suc n) ser w inst d p ctx True
        = Some (Inr (Arr (map (resolve_or_construct w ctx c) fss)))"
    if t: "propertyType p = EntityType c" and l: "isList p" and bs: "?v = Arr bs"
      and st: "map (call_serialize w s) bs = map (\<lambda>fs. Inr (Obj fs)) fss" for c bs fss
  proof -
    have a: "isArray ?v" using bs by simp
    have "map (call_serialize w s) bs = map Inr (map Obj fss)" using st by simp
    then have "map_results (call_serialize w s) bs = Inr (map Obj fss)"
      by (rule map_results_all_Inr)
    with default_entity_list [OF t l a def] have "d = Arr (map Obj fss)"
      using bs by auto
    then show ?thesis
      using deserialize_entity_list [OF conv t l] by (simp add: resolve_objects)
  qed
  have single_fields: "d = Obj (the (serialized_fields w s ?v)) \<and>
      deserialize (Suc n) ser w inst d p ctx True
        = Some (Inr (resolve_or_construct w ctx c (the (serialized_fields w s ?v))))"
    if t: "propertyType p = EntityType c" and sf: "serialized_fields w s ?v \<noteq> None" for c
  proof -
    from serialized_fields_Some [OF sf] obtain b where b: "?v = Inst b"
      "entity_serialize w b s = Inr (Obj (the (serialized_fields w s ?v)))"
      by blast
    show ?thesis by (rule single [OF t b])
  qed
  have list_fields:
    "d = Arr (map (\<lambda>b. Obj (the (serialized_fields w s b))) (elems ?v)) \<and>
     deserialize (Suc n) ser w inst d p ctx True
       = Some (Inr (Arr (map (\<lambda>b. resolve_or_construct w ctx c (the (serialized_fields w s b)))
                          (elems ?v))))"
    if t: "propertyType p = EntityType c" and l: "isList p" and a: "isArray ?v"
      and sf: "list_all (\<lambda>b. serialized_fields w s b \<noteq> None) (elems ?v)" for c
  proof -
    from a obtain bs where bs: "?v = Arr bs" by (cases ?v) simp_all
    have sf': "list_all (\<lambda>b. serialized_fields w s b \<noteq> None) bs" using sf bs by simp
    from lst [OF t l bs serialized_fields_list [OF sf']]
    have A: "d = Arr (map Obj (map (\<lambda>b. the (serialized_fields w s b)) bs))"
      and B: "deserialize (Suc n) ser w inst d p ctx True
        = Some (Inr (Arr (map (resolve_or_construct w ctx c)
                           (map (\<lambda>b. the (serialized_fields w s b)) bs))))"
      by blast+
    have el: "elems ?v = bs" using bs by simp
    show ?thesis unfolding el B using A by (simp add: comp_def)
  qed
  have found: "deserialize (Suc n) ser w inst d p ctx True = Some (Inr ?v)"
    if t: "propertyType p = EntityType c" and po: "pooled w s c ?v" for c
  proof -
    from pooled_resolves [OF po] obtain b fs where b: "?v = Inst b"
      "entity_serialize w b s = Inr (Obj fs)" "resolve_or_construct w ctx c fs = Inst b"
      by blast
    from single [OF t b(1,2)]
    have "deserialize (Suc n) ser w inst d p ctx True = Some (Inr (resolve_or_construct w ctx c fs))"
      by blast
    then show ?thesis unfolding b(3) b(1) .
  qed
  have found_list: "deserialize (Suc n) ser w inst d p ctx True = Some (Inr ?v)"
    if t: "propertyType p = EntityType c" and l: "isList p" and a: "isArray ?v"
      and po: "list_all (pooled w s c) (elems ?v)" for c
  proof -
    from a obtain bs where bs: "?v = Arr bs" by (cases ?v) simp_all
    from pooled_list_states [of w s c bs ctx] po bs obtain fss where
      fss: "map (call_serialize w s) bs = map (\<lambda>fs. Inr (Obj fs)) fss"
      "map (resolve_or_construct w ctx c) fss = bs"
      by auto
    from lst [OF t l bs fss(1)]
    have "deserialize (Suc n) ser w inst d p ctx True
        = Some (Inr (Arr (map (resolve_or_construct w ctx c) fss)))"
      by blast
    then show ?thesis unfolding fss(2) bs .
  qed
  show ?thesis
    using d scalar falsy single_fields list_fields found found_list by blast
qed

text \<open>The example worlds: what the three persons serialize to.\<close>

lemmas pool_defs = pool_world_def PersonWithId_def id_property_def name_property_def
  manager_property_def reports_property_def bob_state_def

lemmas serialize_defs = serialize_def model_pairs_def injected_pairs_def
  getInjectorsOrDefault_def new_serializer_def serializePropertyValue_def
  PropertyConverter_serialize_def isEntityType_def DefaultSerializationSettings_def
  empty_object_def hasOwnProperty_callable_def js_assign_def

lemma pool_serialize_bob:
  "serialize new_serializer pool_world 1 DefaultSerializationSettings
     = Inr \<lparr>proto = None, own = bob_state\<rparr>"
  by (simp add: serialize_defs pool_defs)

lemma pool_serialize_ann:
  "serialize new_serializer pool_world 0 DefaultSerializationSettings =
     Inr \<lparr>proto = None,
          own = [(''Id'', Num 1), (''name'', Str ''Ann''), (''manager'', Null),
                 (''reports'', Arr [Obj bob_state])]\<rparr>"
  by (simp add: serialize_defs pool_defs)

lemma pool_serialize_cal:
  "serialize new_serializer pool_world 2 DefaultSerializationSettings =
     Inr \<lparr>proto = None,
          own = [(''Id'', Num 3), (''name'', Str ''Cal''), (''manager'', Obj bob_state),
                 (''reports'', Arr [])]\<rparr>"
  by (simp add: serialize_defs pool_defs)

lemma anonymous_serialize_ann:
  "serialize new_serializer anonymous_world 0 DefaultSerializationSettings =
     Inr \<lparr>proto = None,
          own = [(''Id'', Num 1), (''name'', Str ''Ann''), (''manager'', Null),
                 (''reports'', Arr [Obj bob_state])]\<rparr>"
  by (simp add: serialize_defs pool_defs anonymous_world_def Person_def)

lemma anonymous_serialize_cal:
  "serialize new_serializer anonymous_world 2 DefaultSerializationSettings =
     Inr \<lparr>proto = None,
          own = [(''Id'', Num 3), (''name'', Str ''Cal''), (''manager'', Obj bob_state),
                 (''reports'', Arr [])]\<rparr>"
  by (simp add: serialize_defs pool_defs anonymous_world_def Person_def)

lemma missing_serialize_cal:
  "serialize new_serializer missing_world 2 DefaultSerializationSettings =
     Inr \<lparr>proto = None,
          own = [(''Id'', Num 3), (''name'', Str ''Cal''), (''manager'', Obj bob_state),
                 (''reports'', Arr [])]\<rparr>"
  by (simp add: serialize_defs pool_defs missing_world_def)

text \<open>
  Ann's name comes back; her manager, \<^verbatim>\<open>null\<close>, comes back as no value; her reports come
  back as the list holding Bob himself; Cal's manager comes back as Bob himself. Where
  the lookup finds nothing Cal's manager comes back as the entity constructed for Bob's
  identifier 2; where the type declares no identifier it comes back as the entity
  constructed without identifier, and so does each of Ann's reports.
\<close>

theorem round_trip_without_plugins_witness:
  "serialize new_serializer pool_world 1 DefaultSerializationSettings
     = Inr \<lparr>proto = None, own = bob_state\<rparr> \<and>
   serialize new_serializer pool_world 0 DefaultSerializationSettings =
     Inr \<lparr>proto = None,
          own = [(''Id'', Num 1), (''name'', Str ''Ann''), (''manager'', Null),
                 (''reports'', Arr [Obj bob_state])]\<rparr> \<and>
   deserialize (Suc 0) new_serializer pool_world 0 (Str ''Ann'') name_property 0 True
     = Some (Inr (Str ''Ann'')) \<and>
   deserialize (Suc 0) new_serializer pool_world 0 Null manager_property 0 True
     = Some (Inr Undefined) \<and>
   deserialize (Suc 0) new_serializer pool_world 0 (Arr [Obj bob_state]) reports_property 0 True
     = Some (Inr (Arr [Inst 1])) \<and>
   serialize new_serializer pool_world 2 DefaultSerializationSettings =
     Inr \<lparr>proto = None,
          own = [(''Id'', Num 3), (''name'', Str ''Cal''), (''manager'', Obj bob_state),
                 (''reports'', Arr [])]\<rparr> \<and>
   deserialize (Suc 0) new_serializer pool_world 2 (Obj bob_state) manager_property 0 True
     = Some (Inr (Inst 1)) \<and>
   deserialize (Suc 0) new_serializer missing_world 2 (Obj bob_state) manager_property 0 True
     = Some (Inr (Inst 102)) \<and>
   deserialize (Suc 0) new_serializer anonymous_world 2 (Obj bob_state) manager_property 0 True
     = Some (Inr (Inst 9)) \<and>
   deserialize (Suc 0) new_serializer anonymous_world 0 (Arr [Obj bob_state]) reports_property 0 True
     = Some (Inr (Arr [Inst 9]))"
proof -
  let ?D = DefaultSerializationSettings
  have conv: "propertyConverters new_serializer = []"
    and inj: "propertyInjectors new_serializer = (\<lambda>k. None)"
    and al: "propertyAliases new_serializer = (\<lambda>k. None)"
    by (simp_all add: new_serializer_def)
  have flags: "\<not> isCalculated name_property" "\<not> isConstant name_property"
    "\<not> isCalculated manager_property" "\<not> isConstant manager_property"
    "\<not> isCalculated reports_property" "\<not> isConstant reports_property"
    by (simp_all add: pool_defs)
  have keys: "serialized_key ?D name_property \<noteq> ''__proto__''"
    "serialized_key ?D manager_property \<noteq> ''__proto__''"
    "serialized_key ?D reports_property \<noteq> ''__proto__''"
    by (simp_all add: serialized_key_def DefaultSerializationSettings_def pool_defs)
  have mem: "name_property \<in> set (properties (meta_type pool_world e))"
    "manager_property \<in> set (properties (meta_type pool_world e))"
    "reports_property \<in> set (properties (meta_type pool_world e))"
    "manager_property \<in> set (properties (meta_type anonymous_world e))"
    "reports_property \<in> set (properties (meta_type anonymous_world e))"
    "manager_property \<in> set (properties (meta_type missing_world e))" for e
    by (simp_all add: pool_world_def PersonWithId_def anonymous_world_def missing_world_def)
  note ann = round_trip_without_plugins [OF conv inj al pool_serialize_ann]
  note cal = round_trip_without_plugins [OF conv inj al pool_serialize_cal]
  note anon_cal = round_trip_without_plugins [OF conv inj al anonymous_serialize_cal]
  note anon_ann = round_trip_without_plugins [OF conv inj al anonymous_serialize_ann]
  note miss = round_trip_without_plugins [OF conv inj al missing_serialize_cal]
  have w1: "deserialize (Suc 0) new_serializer pool_world 0 (Str ''Ann'') name_property 0 True
     = Some (Inr (Str ''Ann''))"
    using ann [OF mem(1) flags(1,2) keys(1), where inst = 0 and ctx = 0 and n = 0]
    by (simp add: pool_defs serialized_key_def DefaultSerializationSettings_def
        del: deserialize.simps)
  have w2: "deserialize (Suc 0) new_serializer pool_world 0 Null manager_property 0 True
     = Some (Inr Undefined)"
    using ann [OF mem(2) flags(3,4) keys(2), where inst = 0 and ctx = 0 and n = 0]
    by (simp add: pool_defs serialized_key_def DefaultSerializationSettings_def
        del: deserialize.simps)
  have w3: "deserialize (Suc 0) new_serializer pool_world 0 (Arr [Obj bob_state]) reports_property 0 True
     = Some (Inr (Arr [Inst 1]))"
    using ann [OF mem(3) flags(5,6) keys(3), where inst = 0 and ctx = 0 and n = 0]
    by (simp add: pool_defs pooled_def resolve_or_construct_def object_member_def serialized_key_def
        DefaultSerializationSettings_def del: deserialize.simps)
  have w4: "deserialize (Suc 0) new_serializer pool_world 2 (Obj bob_state) manager_property 0 True
     = Some (Inr (Inst 1))"
    using cal [OF mem(2) flags(3,4) keys(2), where inst = 2 and ctx = 0 and n = 0]
    by (simp add: pool_defs pooled_def resolve_or_construct_def object_member_def serialized_key_def
        DefaultSerializationSettings_def del: deserialize.simps)
  have w5: "deserialize (Suc 0) new_serializer missing_world 2 (Obj bob_state) manager_property 0 True
     = Some (Inr (Inst 102))"
    using miss [OF mem(6) flags(3,4) keys(2), where inst = 2 and ctx = 0 and n = 0]
    by (simp add: pool_defs missing_world_def resolve_or_construct_def object_member_def serialized_key_def
        DefaultSerializationSettings_def del: deserialize.simps)
  have w6: "deserialize (Suc 0) new_serializer anonymous_world 2 (Obj bob_state) manager_property 0 True
     = Some (Inr (Inst 9))"
    using anon_cal [OF mem(4) flags(3,4) keys(2), where inst = 2 and ctx = 0 and n = 0]
    by (simp add: pool_defs anonymous_world_def Person_def resolve_or_construct_def
        object_member_def serialized_key_def DefaultSerializationSettings_def del: deserialize.simps)
  have w7: "deserialize (Suc 0) new_serializer anonymous_world 0 (Arr [Obj bob_state]) reports_property 0 True
     = Some (Inr (Arr [Inst 9]))"
    using anon_ann [OF mem(5) flags(5,6) keys(3), where inst = 0 and ctx = 0 and n = 0]
    by (simp add: pool_defs anonymous_world_def Person_def resolve_or_construct_def
        object_member_def serialized_key_def DefaultSerializationSettings_def del: deserialize.simps)
  show ?thesis
    using w1 w2 w3 w4 w5 w6 w7 pool_serialize_bob pool_serialize_ann pool_serialize_cal by simp
qed

text \<open>
  C1 as stated fails: Ann's manager is \<^verbatim>\<open>null\<close>, it is serialized as \<^verbatim>\<open>null\<close>, and
  deserializing \<^verbatim>\<open>null\<close> for the entity-typed property produces no value
  (\<^verbatim>\<open>undefined\<close>) instead of \<^verbatim>\<open>null\<close>.
\<close>

theorem round_trip_null_manager_counterexample:
  "serialize new_serializer pool_world 0 DefaultSerializationSettings =
     Inr \<lparr>proto = None,
          own = [(''Id'', Num 1), (''name'', Str ''Ann''), (''manager'', Null),
                 (''reports'', Arr [Obj bob_state])]\<rparr> \<and>
   manager_property \<in> set (properties (meta_type pool_world 0)) \<and>
   prop_value pool_world manager_property 0 = Null \<and>
   deserialize (Suc 0) new_serializer pool_world 0 Null manager_property 0 True
     = Some (Inr Undefined) \<and>
   deserialize (Suc 0) new_serializer pool_world 0 Null manager_property 0 True
     \<noteq> Some (Inr (prop_value pool_world manager_property 0))"
  by (simp add: pool_serialize_ann)
    (simp add: pool_defs apply_converter_def new_serializer_def)

end
